theory Spec2Isabelle
  imports Complex_Main
begin

section \<open>Numbers as the program sees them\<close>

text \<open>
  The calculators of \<^verbatim>\<open>app.py\<close> compute with Python numbers and with numpy
  \<^verbatim>\<open>float64\<close> values. A float of either kind is modelled by \<open>num\<close>: a finite
  value (an exact real: rounding and overflow of binary floating point are outside the
  model, and the two zeros are one), plus or minus infinity, or NaN. The operations
  follow IEEE 754 on the special values, as numpy does: they never raise.
\<close>

datatype num = Fin real | PInf | NInf | NaN

fun num_neg :: "num \<Rightarrow> num" where
  "num_neg (Fin x) = Fin (- x)"
| "num_neg PInf = NInf"
| "num_neg NInf = PInf"
| "num_neg NaN = NaN"

fun num_abs :: "num \<Rightarrow> num" where
  "num_abs (Fin x) = Fin \<bar>x\<bar>"
| "num_abs PInf = PInf"
| "num_abs NInf = PInf"
| "num_abs NaN = NaN"

fun num_sgn :: "num \<Rightarrow> real" where
  "num_sgn (Fin x) = sgn x"
| "num_sgn PInf = 1"
| "num_sgn NInf = - 1"
| "num_sgn NaN = 0"

fun num_add :: "num \<Rightarrow> num \<Rightarrow> num" where
  "num_add (Fin x) (Fin y) = Fin (x + y)"
| "num_add NaN _ = NaN"
| "num_add _ NaN = NaN"
| "num_add PInf NInf = NaN"
| "num_add NInf PInf = NaN"
| "num_add PInf _ = PInf"
| "num_add _ PInf = PInf"
| "num_add NInf _ = NInf"
| "num_add _ NInf = NInf"

definition num_sub :: "num \<Rightarrow> num \<Rightarrow> num" where
  "num_sub a b = num_add a (num_neg b)"

fun num_mul :: "num \<Rightarrow> num \<Rightarrow> num" where
  "num_mul (Fin x) (Fin y) = Fin (x * y)"
| "num_mul NaN _ = NaN"
| "num_mul _ NaN = NaN"
| "num_mul a b =
     (if num_sgn a * num_sgn b = 0 then NaN
      else if 0 < num_sgn a * num_sgn b then PInf else NInf)"

fun num_div :: "num \<Rightarrow> num \<Rightarrow> num" where
  "num_div (Fin x) (Fin y) =
     (if y = 0 then (if x = 0 then NaN else if 0 < x then PInf else NInf)
      else Fin (x / y))"
| "num_div NaN _ = NaN"
| "num_div _ NaN = NaN"
| "num_div (Fin x) _ = Fin 0"
| "num_div a (Fin y) = (if (0 \<le> y) = (a = PInf) then PInf else NInf)"
| "num_div _ _ = NaN"

fun num_lt :: "num \<Rightarrow> num \<Rightarrow> bool" where
  "num_lt (Fin x) (Fin y) = (x < y)"
| "num_lt NaN _ = False"
| "num_lt _ NaN = False"
| "num_lt PInf _ = False"
| "num_lt _ NInf = False"
| "num_lt _ _ = True"

definition num_eq :: "num \<Rightarrow> num \<Rightarrow> bool" where
  "num_eq a b = (a = b \<and> a \<noteq> NaN)"

text \<open>\<^verbatim>\<open>np.log\<close>: minus infinity at zero and NaN below it, with a warning only.\<close>

fun num_log :: "num \<Rightarrow> num" where
  "num_log (Fin x) = (if 0 < x then Fin (ln x) else if x = 0 then NInf else NaN)"
| "num_log PInf = PInf"
| "num_log NInf = NaN"
| "num_log NaN = NaN"

text \<open>
  \<^verbatim>\<open>scipy.stats.norm.cdf\<close> is a library function; the model takes the standard normal
  distribution function on the reals as the parameter \<open>Phi\<close> and extends it to the
  special values as scipy does.
\<close>

fun num_cdf :: "(real \<Rightarrow> real) \<Rightarrow> num \<Rightarrow> num" where
  "num_cdf Phi (Fin x) = Fin (Phi x)"
| "num_cdf Phi PInf = Fin 1"
| "num_cdf Phi NInf = Fin 0"
| "num_cdf Phi NaN = NaN"

text \<open>
  A number is a Python \<^verbatim>\<open>int\<close> (\<open>PyInt\<close>, unbounded), a Python \<^verbatim>\<open>float\<close> (\<open>Py\<close>)
  or a numpy \<^verbatim>\<open>float64\<close> (\<open>Np\<close>). The kinds differ in three places. Dividing a
  Python number by a Python zero raises \<^verbatim>\<open>ZeroDivisionError\<close>, while a division with
  a numpy operand returns an infinity or NaN. A sum, a difference or a product of two
  \<^verbatim>\<open>int\<close>s is an \<^verbatim>\<open>int\<close>; every other result is a float, a numpy one as soon as one
  operand is. And \<^verbatim>\<open>np.isinf\<close> raises \<^verbatim>\<open>TypeError\<close> on an \<^verbatim>\<open>int\<close> that fits neither
  a signed nor an unsigned 64-bit integer (see \<open>is_problematic\<close>). \<open>val\<close> is the
  value of a number as a float; the conversion of an \<^verbatim>\<open>int\<close> is exact, as all finite
  arithmetic of the model is.
\<close>

datatype number = PyInt int | Py num | Np num

fun val :: "number \<Rightarrow> num" where
  "val (PyInt k) = Fin (of_int k)"
| "val (Py x) = x"
| "val (Np x) = x"

fun is_np :: "number \<Rightarrow> bool" where
  "is_np (PyInt k) = False"
| "is_np (Py x) = False"
| "is_np (Np x) = True"

definition lift2 :: "(num \<Rightarrow> num \<Rightarrow> num) \<Rightarrow> number \<Rightarrow> number \<Rightarrow> number" where
  "lift2 f a b =
     (if is_np a \<or> is_np b then Np (f (val a) (val b)) else Py (f (val a) (val b)))"

datatype exc =
    IndexError
  | KeyError string
  | TypeError
  | ZeroDivisionError
  | ValueError
  | OverflowError
  | OtherError string

text \<open>\<open>lift2i g f\<close>: the operation \<open>g\<close> on two \<^verbatim>\<open>int\<close>s, and \<open>f\<close> on floats otherwise.\<close>

definition lift2i ::
  "(int \<Rightarrow> int \<Rightarrow> int) \<Rightarrow> (num \<Rightarrow> num \<Rightarrow> num) \<Rightarrow> number \<Rightarrow> number \<Rightarrow> number" where
  "lift2i g f a b =
     (case a of
        PyInt i \<Rightarrow> (case b of PyInt j \<Rightarrow> PyInt (g i j) | Py y \<Rightarrow> lift2 f a b | Np y \<Rightarrow> lift2 f a b)
      | Py x \<Rightarrow> lift2 f a b
      | Np x \<Rightarrow> lift2 f a b)"

definition py_add :: "number \<Rightarrow> number \<Rightarrow> number" where
  "py_add = lift2i (+) num_add"

definition py_sub :: "number \<Rightarrow> number \<Rightarrow> number" where
  "py_sub = lift2i (-) num_sub"

definition py_mul :: "number \<Rightarrow> number \<Rightarrow> number" where
  "py_mul = lift2i (*) num_mul"

definition py_div :: "number \<Rightarrow> number \<Rightarrow> exc + number" where
  "py_div a b =
     (if \<not> is_np a \<and> \<not> is_np b \<and> val b = Fin 0 then Inl ZeroDivisionError
      else Inr (lift2 num_div a b))"

fun py_abs :: "number \<Rightarrow> number" where
  "py_abs (PyInt k) = PyInt \<bar>k\<bar>"
| "py_abs (Py x) = Py (num_abs x)"
| "py_abs (Np x) = Np (num_abs x)"

fun py_neg :: "number \<Rightarrow> number" where
  "py_neg (PyInt k) = PyInt (- k)"
| "py_neg (Py x) = Py (num_neg x)"
| "py_neg (Np x) = Np (num_neg x)"

definition py_lt :: "number \<Rightarrow> number \<Rightarrow> bool" where
  "py_lt a b = num_lt (val a) (val b)"

definition py_gt :: "number \<Rightarrow> number \<Rightarrow> bool" where
  "py_gt a b = num_lt (val b) (val a)"

definition np_log :: "number \<Rightarrow> number" where
  "np_log a = Np (num_log (val a))"

definition norm_cdf :: "(real \<Rightarrow> real) \<Rightarrow> number \<Rightarrow> number" where
  "norm_cdf Phi a = Np (num_cdf Phi (val a))"

text \<open>A value read from the \<^verbatim>\<open>info\<close> dictionary: a number, or \<^verbatim>\<open>None\<close>.\<close>

datatype pyval = PyNone | PyNumber number

section \<open>Helper functions for data processing\<close>

text \<open>
  \<^verbatim>\<open>is_problematic(value)\<close>, lines 197 to 205. The \<^verbatim>\<open>try\<close> block returns
  \<^verbatim>\<open>pd.isna(value) or np.isinf(value) or value == 0 or abs(float(value)) < 1e-6\<close>, read
  from left to right (\<open>is_problematic_test\<close>); the bare \<^verbatim>\<open>except\<close> returns \<open>True\<close>.
  \<^verbatim>\<open>np.isinf\<close> raises \<^verbatim>\<open>TypeError\<close> on \<^verbatim>\<open>None\<close> (which \<^verbatim>\<open>pd.isna\<close> has caught
  before) and on a Python \<^verbatim>\<open>int\<close> that numpy cannot convert to a 64-bit integer, signed
  or unsigned: one from \<open>2^64\<close> on or below \<open>-2^63\<close>. The other disjuncts are reached
  only by values on which they do not raise.
\<close>

definition pd_isna :: "pyval \<Rightarrow> bool" where
  "pd_isna v = (case v of PyNone \<Rightarrow> True | PyNumber n \<Rightarrow> val n = NaN)"

definition np_isinf :: "pyval \<Rightarrow> exc + bool" where
  "np_isinf v =
     (case v of
        PyNone \<Rightarrow> Inl TypeError
      | PyNumber n \<Rightarrow>
          (case n of
             PyInt k \<Rightarrow> if 2 ^ 64 \<le> k \<or> k < - (2 ^ 63) then Inl TypeError else Inr False
           | Py x \<Rightarrow> Inr (x = PInf \<or> x = NInf)
           | Np x \<Rightarrow> Inr (x = PInf \<or> x = NInf)))"

definition is_problematic_test :: "pyval \<Rightarrow> exc + bool" where
  "is_problematic_test v =
     (if pd_isna v then Inr True
      else case np_isinf v of
             Inl e \<Rightarrow> Inl e
           | Inr isinf \<Rightarrow>
               if isinf then Inr True
               else case v of
                      PyNone \<Rightarrow> Inl TypeError
                    | PyNumber n \<Rightarrow>
                        Inr (num_eq (val n) (Fin 0) \<or>
                             num_lt (num_abs (val n)) (Fin (1 / 1000000))))"

definition is_problematic :: "pyval \<Rightarrow> bool" where
  "is_problematic v = (case is_problematic_test v of Inl e \<Rightarrow> True | Inr b \<Rightarrow> b)"

definition problematic :: "number \<Rightarrow> bool" where
  "problematic n = is_problematic (PyNumber n)"

text \<open>
  A financial statement as yfinance returns it: a pandas DataFrame whose index holds the
  names of the rows and whose columns are the reporting periods, the most recent first.
  Every row has the same number of columns; a cell is a numpy value, NaN when the figure
  is missing. Row names are taken to be unique, as they are in a statement.
\<close>

record dataframe =
  df_index :: "string list"
  df_ncols :: nat
  df_cell :: "string \<Rightarrow> nat \<Rightarrow> num"

text \<open>\<^verbatim>\<open>df.loc[key].iloc[index]\<close>: out of range raises \<^verbatim>\<open>IndexError\<close>.\<close>

definition loc_iloc :: "dataframe \<Rightarrow> string \<Rightarrow> nat \<Rightarrow> exc + number" where
  "loc_iloc df key i =
     (if i < df_ncols df then Inr (Np (df_cell df key i)) else Inl IndexError)"

text \<open>
  \<^verbatim>\<open>safe_get(df, keys, index=0)\<close>. The loop over \<open>keys\<close> is \<open>safe_get_keys\<close>; an
  exception inside it leaves through the handler of \<open>safe_get\<close>, which returns the
  default \<open>(0, None)\<close>, as the exhausted loop does.
\<close>

fun safe_get_keys :: "dataframe \<Rightarrow> nat \<Rightarrow> string list \<Rightarrow> exc + (number \<times> string option)" where
  "safe_get_keys df i [] = Inr (PyInt 0, None)"
| "safe_get_keys df i (key # keys) =
     (if key \<in> set (df_index df) then
        (case loc_iloc df key i of
           Inl e \<Rightarrow> Inl e
         | Inr v \<Rightarrow>
             if \<not> is_problematic (PyNumber v) then Inr (v, Some key)
             else safe_get_keys df i keys)
      else safe_get_keys df i keys)"

definition safe_get :: "dataframe \<Rightarrow> string list \<Rightarrow> nat \<Rightarrow> number \<times> string option" where
  "safe_get df keys i =
     (case safe_get_keys df i keys of Inl e \<Rightarrow> (PyInt 0, None) | Inr r \<Rightarrow> r)"


section \<open>The company, as yfinance presents it\<close>

text \<open>
  An entry of the two lists every calculator returns (\<^verbatim>\<open>problematic_values\<close> and
  \<^verbatim>\<open>substituted_values\<close>): a fixed text, or an f-string made of a fixed text and the
  message of a caught exception (the third form also holds the iteration number).
\<close>

datatype entry = Note string | ErrNote string exc | IterErrNote nat exc

type_synonym entries = "entry list"

text \<open>
  The price history \<^verbatim>\<open>company.history(period=...)\<close> returns: a DataFrame with one row
  per trading day. \<open>hist_len\<close> is \<^verbatim>\<open>len(stock_data)\<close>; a column that the frame does
  not have is \<open>None\<close>, and reading it raises \<^verbatim>\<open>KeyError\<close>.
\<close>

record stock_data =
  hist_len :: nat
  hist_col :: "string \<Rightarrow> num list option"

text \<open>
  The \<^verbatim>\<open>yf.Ticker\<close> object. Each attribute is fetched when it is read, and the read can
  fail: \<open>Inl\<close> is the exception it raises.
\<close>

record company =
  history :: "string \<Rightarrow> exc + stock_data"
  balance_sheet :: "exc + dataframe"
  income_stmt :: "exc + dataframe"
  info :: "exc + (string \<Rightarrow> pyval option)"

definition info_get :: "(string \<Rightarrow> pyval option) \<Rightarrow> string \<Rightarrow> pyval" where
  "info_get d key = (case d key of None \<Rightarrow> PyNumber (PyInt 0) | Some v \<Rightarrow> v)"

text \<open>\<^verbatim>\<open>shares * price\<close> on values of the dictionary: \<^verbatim>\<open>None\<close> raises \<^verbatim>\<open>TypeError\<close>.\<close>

fun pyval_mul :: "pyval \<Rightarrow> pyval \<Rightarrow> exc + number" where
  "pyval_mul (PyNumber x) (PyNumber y) = Inr (py_mul x y)"
| "pyval_mul _ _ = Inl TypeError"

text \<open>
  Inside a \<^verbatim>\<open>try\<close> block an exception leaves with the two lists as they stand at that
  moment, since the handler appends to them: \<open>attempt m pv sv k\<close> evaluates \<open>m\<close> and
  goes on with \<open>k\<close>, or raises with the lists \<open>pv\<close> and \<open>sv\<close>.
\<close>

definition attempt ::
  "exc + 'a \<Rightarrow> entries \<Rightarrow> entries \<Rightarrow> ('a \<Rightarrow> (exc \<times> entries \<times> entries) + 'r) \<Rightarrow> (exc \<times> entries \<times> entries) + 'r" where
  "attempt m pv sv k = (case m of Inl e \<Rightarrow> Inl (e, pv, sv) | Inr a \<Rightarrow> k a)"

section \<open>Altman Z-Score\<close>

type_synonym z_result = "number option \<times> entries \<times> entries"

text \<open>Total Assets (A): lines 706 to 716. \<open>Inl\<close> is the early \<^verbatim>\<open>return\<close>.\<close>

definition z_total_assets ::
  "dataframe \<Rightarrow> entries \<Rightarrow> entries \<Rightarrow> z_result + (number \<times> entries \<times> entries)" where
  "z_total_assets bs pv sv =
     (let total_assets = fst (safe_get bs [''Total Assets'', ''TotalAssets''] 0) in
      if problematic total_assets then
        (let current_assets = fst (safe_get bs [''Current Assets'', ''TotalCurrentAssets''] 0);
             non_current_assets =
               fst (safe_get bs [''Non Current Assets'', ''TotalNonCurrentAssets''] 0);
             total_assets = py_add current_assets non_current_assets
         in if \<not> problematic total_assets then
              Inr (total_assets, pv,
                   sv @ [Note ''Total Assets (calculated from Current + Non-Current Assets)''])
            else Inl (None, pv @ [Note ''Total Assets''], sv))
      else Inr (total_assets, pv, sv))"

text \<open>Working Capital: lines 718 to 721.\<close>

definition z_working_capital :: "dataframe \<Rightarrow> number" where
  "z_working_capital bs =
     (let current_assets =
            fst (safe_get bs [''Current Assets'', ''CurrentAssets'', ''TotalCurrentAssets''] 0);
          current_liabilities =
            fst (safe_get bs [''Current Liabilities'', ''CurrentLiabilities'',
                              ''TotalCurrentLiabilities''] 0)
      in py_sub current_assets current_liabilities)"

text \<open>Retained Earnings: lines 723 to 732.\<close>

definition z_retained_earnings ::
  "dataframe \<Rightarrow> entries \<Rightarrow> entries \<Rightarrow> number \<times> entries \<times> entries" where
  "z_retained_earnings bs pv sv =
     (let retained_earnings = fst (safe_get bs [''Retained Earnings'', ''RetainedEarnings''] 0) in
      if problematic retained_earnings then
        (let total_equity = fst (safe_get bs [''Total Equity'', ''TotalEquity''] 0);
             capital_stock = fst (safe_get bs [''Capital Stock'', ''CommonStock''] 0);
             retained_earnings = py_sub total_equity capital_stock
         in if \<not> problematic retained_earnings then
              (retained_earnings, pv,
               sv @ [Note ''Retained Earnings (calculated from Total Equity - Capital Stock)''])
            else (retained_earnings, pv @ [Note ''Retained Earnings''], sv))
      else (retained_earnings, pv, sv))"

text \<open>EBIT: lines 734 to 743.\<close>

definition z_ebit :: "dataframe \<Rightarrow> entries \<Rightarrow> entries \<Rightarrow> number \<times> entries \<times> entries" where
  "z_ebit inc pv sv =
     (let ebit = fst (safe_get inc [''EBIT'', ''OperatingIncome''] 0) in
      if problematic ebit then
        (let ebitda = fst (safe_get inc [''EBITDA''] 0);
             depreciation = fst (safe_get inc [''Depreciation'', ''DepreciationAndAmortization''] 0);
             ebit = py_sub ebitda depreciation
         in if \<not> problematic ebit then
              (ebit, pv, sv @ [Note ''EBIT (calculated from EBITDA - Depreciation)''])
            else (ebit, pv @ [Note ''EBIT''], sv))
      else (ebit, pv, sv))"

text \<open>
  Market Value of Equity: lines 745 to 754. \<open>recalculated\<close> is the branch taken when
  \<^verbatim>\<open>is_problematic(market_value)\<close> holds, which it does on \<^verbatim>\<open>None\<close>;
  \<^verbatim>\<open>shares * price\<close> raises when one of them is \<^verbatim>\<open>None\<close>.
\<close>

definition z_market_value ::
  "(string \<Rightarrow> pyval option) \<Rightarrow> entries \<Rightarrow> entries \<Rightarrow> (exc \<times> entries \<times> entries) + (number \<times> entries \<times> entries)" where
  "z_market_value nfo pv sv =
     (let market_value = info_get nfo ''marketCap'';
          recalculated =
            (let shares = info_get nfo ''sharesOutstanding'';
                 price = info_get nfo ''currentPrice''
             in attempt (pyval_mul shares price) pv sv (\<lambda>market_value.
                  if \<not> problematic market_value then
                    Inr (market_value, pv,
                         sv @ [Note ''Market Value (calculated from Shares * Price)''])
                  else Inr (market_value, pv @ [Note ''Market Value''], sv)))
      in case market_value of
           PyNone \<Rightarrow> recalculated
         | PyNumber n \<Rightarrow>
             if is_problematic (PyNumber n) then recalculated else Inr (n, pv, sv))"

text \<open>Sales: lines 763 to 766.\<close>

definition z_sales :: "dataframe \<Rightarrow> entries \<Rightarrow> entries \<Rightarrow> number \<times> entries \<times> entries" where
  "z_sales inc pv sv =
     (let sales = fst (safe_get inc [''Total Revenue'', ''TotalRevenue'', ''Revenue''] 0) in
      if problematic sales then (sales, pv @ [Note ''Sales/Revenue''], sv)
      else (sales, pv, sv))"

text \<open>
  The ratios and the score: lines 768 to 778. \<open>Inr None\<close> is the end of the block without
  a \<^verbatim>\<open>return\<close>, which falls through to the last line of the function.
\<close>

definition z_ratios ::
  "number \<Rightarrow> number \<Rightarrow> number \<Rightarrow> number \<Rightarrow> number \<Rightarrow> number \<Rightarrow> number \<Rightarrow> exc + number option" where
  "z_ratios total_assets working_capital retained_earnings ebit market_value
            total_liabilities sales =
     (if \<not> problematic total_assets then
        (case py_div working_capital total_assets of Inl e \<Rightarrow> Inl e | Inr A \<Rightarrow>
         case py_div retained_earnings total_assets of Inl e \<Rightarrow> Inl e | Inr B \<Rightarrow>
         case py_div ebit total_assets of Inl e \<Rightarrow> Inl e | Inr C \<Rightarrow>
         case (if \<not> problematic total_liabilities then py_div market_value total_liabilities
               else Inr (PyInt 0)) of Inl e \<Rightarrow> Inl e | Inr D \<Rightarrow>
         case py_div sales total_assets of Inl e \<Rightarrow> Inl e | Inr E \<Rightarrow>
           Inr (Some
             (py_add (py_add (py_add (py_add
                (py_mul (Py (Fin (12 / 10))) A)
                (py_mul (Py (Fin (14 / 10))) B))
                (py_mul (Py (Fin (33 / 10))) C))
                (py_mul (Py (Fin (6 / 10))) D))
                (py_mul (Py (Fin 1)) E))))
      else Inr None)"

text \<open>The body of the \<^verbatim>\<open>try\<close> block of \<^verbatim>\<open>calculate_z_score\<close>.\<close>

definition z_score_body ::
  "(string \<Rightarrow> exc + company) \<Rightarrow> string \<Rightarrow> (exc \<times> entries \<times> entries) + z_result" where
  "z_score_body yf_Ticker ticker =
     attempt (yf_Ticker ticker) [] [] (\<lambda>company.
     attempt (balance_sheet company) [] [] (\<lambda>bs.
     attempt (income_stmt company) [] [] (\<lambda>inc.
     attempt (info company) [] [] (\<lambda>nfo.
       case z_total_assets bs [] [] of
         Inl r \<Rightarrow> Inr r
       | Inr (total_assets, pv, sv) \<Rightarrow>
           (let working_capital = z_working_capital bs;
                (retained_earnings, pv, sv) = z_retained_earnings bs pv sv;
                (ebit, pv, sv) = z_ebit inc pv sv
            in case z_market_value nfo pv sv of
                 Inl x \<Rightarrow> Inl x
               | Inr (market_value, pv, sv) \<Rightarrow>
                   (let total_liabilities =
                          fst (safe_get bs [''Total Liabilities Net Minority Interest'',
                                            ''TotalLiabilities'', ''Total Liabilities''] 0);
                        (sales, pv, sv) = z_sales inc pv sv
                    in attempt (z_ratios total_assets working_capital retained_earnings ebit
                                  market_value total_liabilities sales) pv sv
                         (\<lambda>z. case z of
                                 Some z_score \<Rightarrow> Inr (Some z_score, pv, sv)
                               | None \<Rightarrow> Inr (None, pv, sv))))))))"

text \<open>
  \<^verbatim>\<open>calculate_z_score(ticker)\<close>: the handler appends the error to the problematic
  values and the function returns no score.
\<close>

definition calculate_z_score :: "(string \<Rightarrow> exc + company) \<Rightarrow> string \<Rightarrow> z_result" where
  "calculate_z_score yf_Ticker ticker =
     (case z_score_body yf_Ticker ticker of
        Inl (e, pv, sv) \<Rightarrow> (None, pv @ [ErrNote ''Calculation Error: '' e], sv)
      | Inr r \<Rightarrow> r)"


section \<open>Ohlson O-Score\<close>

type_synonym o_result = "number option \<times> number option \<times> entries \<times> entries"

text \<open>\<^verbatim>\<open>sum([a, b])\<close> starts from the integer 0.\<close>

definition py_sum2 :: "number \<Rightarrow> number \<Rightarrow> number" where
  "py_sum2 a b = py_add (py_add (PyInt 0) a) b"

text \<open>\<^verbatim>\<open>max(a, b)\<close> keeps \<open>a\<close> unless \<open>b > a\<close>.\<close>

definition py_max :: "number \<Rightarrow> number \<Rightarrow> number" where
  "py_max a b = (if py_gt b a then b else a)"

text \<open>
  \<^verbatim>\<open>math.log\<close> raises \<^verbatim>\<open>ValueError\<close> outside its domain, and \<^verbatim>\<open>math.exp\<close> raises
  \<^verbatim>\<open>OverflowError\<close> when the result exceeds the largest double; both return a Python
  float.
\<close>

definition math_log :: "number \<Rightarrow> exc + number" where
  "math_log a =
     (case val a of
        Fin x \<Rightarrow> if 0 < x then Inr (Py (Fin (ln x))) else Inl ValueError
      | PInf \<Rightarrow> Inr (Py PInf)
      | NInf \<Rightarrow> Inl ValueError
      | NaN \<Rightarrow> Inr (Py NaN))"

definition dbl_max :: real where
  "dbl_max = (2 - 1 / 2 ^ 52) * 2 ^ 1023"

definition math_exp :: "number \<Rightarrow> exc + number" where
  "math_exp a =
     (case val a of
        Fin x \<Rightarrow> if dbl_max < exp x then Inl OverflowError else Inr (Py (Fin (exp x)))
      | PInf \<Rightarrow> Inr (Py PInf)
      | NInf \<Rightarrow> Inr (Py (Fin 0))
      | NaN \<Rightarrow> Inr (Py NaN))"

text \<open>Total assets: lines 798 to 809. \<open>Inl\<close> is the early \<^verbatim>\<open>return\<close>.\<close>

definition o_total_assets ::
  "dataframe \<Rightarrow> entries \<Rightarrow> entries \<Rightarrow> o_result + (number \<times> entries \<times> entries)" where
  "o_total_assets bs pv sv =
     (let total_assets = fst (safe_get bs [''Total Assets'', ''TotalAssets''] 0) in
      if problematic total_assets then
        (let total_assets =
               py_sum2 (fst (safe_get bs [''Current Assets'', ''TotalCurrentAssets''] 0))
                       (fst (safe_get bs [''Non Current Assets'', ''TotalNonCurrentAssets''] 0))
         in if \<not> problematic total_assets then
              Inr (total_assets, pv, sv @ [Note ''Total Assets (sum of Current and Non-Current)''])
            else Inl (None, None, pv @ [Note ''Total Assets''], sv))
      else Inr (total_assets, pv, sv))"

text \<open>Net income: lines 830 to 840.\<close>

definition o_net_income :: "dataframe \<Rightarrow> entries \<Rightarrow> entries \<Rightarrow> number \<times> entries \<times> entries" where
  "o_net_income inc pv sv =
     (let net_income = fst (safe_get inc [''Net Income'', ''NetIncome''] 0) in
      if problematic net_income then
        (let operating_income = fst (safe_get inc [''Operating Income'', ''OperatingIncome''] 0);
             interest_expense = fst (safe_get inc [''Interest Expense'', ''InterestExpense''] 0);
             tax_expense = fst (safe_get inc [''Tax Provision'', ''TaxProvision''] 0);
             net_income = py_sub (py_sub operating_income interest_expense) tax_expense
         in if \<not> problematic net_income then
              (net_income, pv, sv @ [Note ''Net Income (Operating Income - Interest - Tax)''])
            else (net_income, pv @ [Note ''Net Income''], sv))
      else (net_income, pv, sv))"

text \<open>
  The change of net income: lines 844 to 852, a \<^verbatim>\<open>try\<close> of its own. The result is
  \<open>(intwo, chin)\<close> and the entries to append to the substituted values.
\<close>

definition o_change :: "dataframe \<Rightarrow> number \<Rightarrow> number \<times> number \<times> entries" where
  "o_change inc net_income =
     (let prev_net_income = fst (safe_get inc [''Net Income'', ''NetIncome''] 1);
          intwo = (if py_lt net_income (PyInt 0) \<and> py_lt prev_net_income (PyInt 0)
                   then PyInt 1 else PyInt 0)
      in case py_div (py_sub net_income prev_net_income)
                     (py_add (py_abs net_income) (py_abs prev_net_income)) of
           Inr chin \<Rightarrow> (intwo, chin, [])
         | Inl e \<Rightarrow>
             (PyInt 0, PyInt 0,
              [Note (''Previous year'' @ [CHR 0x27] @ ''s data not available'')]))"

text \<open>The terms of the score, as the function holds them in its local variables.\<close>

record o_terms =
  size' :: number
  tlta :: number
  wcta :: number
  clca :: number
  oeneg :: number
  nita :: number
  intwo :: number
  chin :: number

text \<open>The O-Score: lines 854 to 856, the sum read from left to right.\<close>

definition o_score_formula :: "o_terms \<Rightarrow> number" where
  "o_score_formula t =
     py_sub (py_sub (py_add (py_sub (py_add (py_add (py_sub (py_add (py_sub
       (Py (Fin (- (132 / 100))))
       (py_mul (Py (Fin (407 / 1000))) (size' t)))
       (py_mul (Py (Fin (603 / 100))) (tlta t)))
       (py_mul (Py (Fin (143 / 100))) (wcta t)))
       (py_mul (Py (Fin (757 / 10000))) (clca t)))
       (py_mul (Py (Fin (237 / 100))) (oeneg t)))
       (py_mul (Py (Fin (183 / 100))) (nita t)))
       (py_mul (Py (Fin (285 / 1000))) (intwo t)))
       (py_mul (Py (Fin (172 / 100))) (oeneg t)))
       (py_mul (Py (Fin (521 / 1000))) (chin t))"

text \<open>The probability of default: line 859.\<close>

definition o_prob_default :: "number \<Rightarrow> exc + number" where
  "o_prob_default o_score =
     (case math_exp (py_neg o_score) of
        Inl e \<Rightarrow> Inl e
      | Inr ex \<Rightarrow> py_div (PyInt 1) (py_add (PyInt 1) ex))"

text \<open>
  Lines 811 to 852: the terms of the score from the two statements and the total assets,
  with the two lists as they stand after them.
\<close>

definition o_terms_of ::
  "dataframe \<Rightarrow> dataframe \<Rightarrow> number \<Rightarrow> entries \<Rightarrow> entries \<Rightarrow>
   (exc \<times> entries \<times> entries) + (o_terms \<times> entries \<times> entries)" where
  "o_terms_of bs inc total_assets pv sv =
     attempt (math_log (py_max total_assets (PyInt 10000))) pv sv (\<lambda>size_v.
     let current_assets = fst (safe_get bs [''Current Assets'', ''TotalCurrentAssets''] 0);
         current_liabilities =
           fst (safe_get bs [''Current Liabilities'', ''TotalCurrentLiabilities''] 0);
         working_capital = py_sub current_assets current_liabilities;
         total_liabilities =
           fst (safe_get bs [''Total Liabilities Net Minority Interest'',
                             ''TotalLiabilities''] 0)
     in
     attempt (if \<not> problematic total_liabilities then py_div total_liabilities total_assets
              else Inr (PyInt 0)) pv sv (\<lambda>tlta_v.
     attempt (py_div working_capital total_assets) pv sv (\<lambda>wcta_v.
     attempt (if \<not> problematic current_assets then py_div current_liabilities current_assets
              else Inr (PyInt 0)) pv sv (\<lambda>clca_v.
     let oeneg_v = (if py_gt total_liabilities total_assets then PyInt 1 else PyInt 0);
         (net_income, pv, sv) = o_net_income inc pv sv
     in
     attempt (if \<not> problematic net_income then py_div net_income total_assets
              else Inr (PyInt 0)) pv sv (\<lambda>nita_v.
     let (intwo_v, chin_v, sv') = o_change inc net_income
     in Inr (\<lparr> size' = size_v, tlta = tlta_v, wcta = wcta_v, clca = clca_v,
               oeneg = oeneg_v, nita = nita_v, intwo = intwo_v, chin = chin_v \<rparr>,
             pv, sv @ sv'))))))"

text \<open>The body of the \<^verbatim>\<open>try\<close> block of \<^verbatim>\<open>calculate_ohlson_score\<close>.\<close>

definition o_score_body :: "company \<Rightarrow> (exc \<times> entries \<times> entries) + o_result" where
  "o_score_body company =
     attempt (balance_sheet company) [] [] (\<lambda>bs.
     attempt (income_stmt company) [] [] (\<lambda>inc.
     attempt (info company) [] [] (\<lambda>nfo.
       case o_total_assets bs [] [] of
         Inl r \<Rightarrow> Inr r
       | Inr (total_assets, pv, sv) \<Rightarrow>
           (case o_terms_of bs inc total_assets pv sv of
              Inl x \<Rightarrow> Inl x
            | Inr (t, pv, sv) \<Rightarrow>
                (let o_score = o_score_formula t in
                 attempt (o_prob_default o_score) pv sv (\<lambda>prob_default.
                   Inr (Some o_score, Some prob_default, pv, sv)))))))"

definition calculate_ohlson_score :: "company \<Rightarrow> o_result" where
  "calculate_ohlson_score company =
     (case o_score_body company of
        Inl (e, pv, sv) \<Rightarrow> (None, None, pv @ [ErrNote ''Calculation Error: '' e], sv)
      | Inr r \<Rightarrow> r)"


section \<open>Merton model\<close>

type_synonym m_result = "number option \<times> number option \<times> entries \<times> entries"

subsection \<open>Price history and equity volatility\<close>

text \<open>
  Lines 876 to 892: the price history of one year, else of six months, else of three.
  \<open>Inl\<close> is the \<^verbatim>\<open>return\<close> of the function from inside the block; \<open>Inr\<close> holds the
  history and the two lists.
\<close>

definition fetch_stock_data :: "company \<Rightarrow> m_result + (stock_data \<times> entries \<times> entries)" where
  "fetch_stock_data company =
     (case history company ''1y'' of
        Inl e \<Rightarrow> Inl (None, None, [ErrNote ''Error fetching stock data: '' e], [])
      | Inr stock_data \<Rightarrow>
          if hist_len stock_data < 30 then
            (case history company ''6mo'' of
               Inl e \<Rightarrow> Inl (None, None, [ErrNote ''Error fetching stock data: '' e], [])
             | Inr stock_data \<Rightarrow>
                 if hist_len stock_data < 30 then
                   (case history company ''3mo'' of
                      Inl e \<Rightarrow> Inl (None, None, [ErrNote ''Error fetching stock data: '' e], [])
                    | Inr stock_data \<Rightarrow>
                        if hist_len stock_data < 30 then
                          Inl (None, None, [Note ''Insufficient stock price history''], [])
                        else Inr (stock_data, [],
                                  [Note ''Using 3-month price history for volatility'']))
                 else Inr (stock_data, [], [Note ''Using 6-month price history for volatility'']))
          else Inr (stock_data, [], []))"

text \<open>\<^verbatim>\<open>stock_data[name]\<close>.\<close>

definition column :: "stock_data \<Rightarrow> string \<Rightarrow> exc + num list" where
  "column sd name = (case hist_col sd name of None \<Rightarrow> Inl (KeyError name) | Some xs \<Rightarrow> Inr xs)"

text \<open>
  The operations on a pandas Series that the volatility uses: \<^verbatim>\<open>shift(1)\<close>, the
  elementwise quotient, \<^verbatim>\<open>np.log\<close>, and \<^verbatim>\<open>std()\<close>, the sample standard deviation
  (one degree of freedom less) of the entries that are not NaN, which is NaN when fewer
  than two are left.
\<close>

definition shift1 :: "num list \<Rightarrow> num list" where
  "shift1 xs = (if xs = [] then [] else NaN # butlast xs)"

definition series_div :: "num list \<Rightarrow> num list \<Rightarrow> num list" where
  "series_div xs ys = map (\<lambda>(x, y). num_div x y) (zip xs ys)"

definition series_log :: "num list \<Rightarrow> num list" where
  "series_log xs = map num_log xs"

fun num_sqrt :: "num \<Rightarrow> num" where
  "num_sqrt (Fin x) = (if 0 \<le> x then Fin (sqrt x) else NaN)"
| "num_sqrt PInf = PInf"
| "num_sqrt NInf = NaN"
| "num_sqrt NaN = NaN"

definition num_sum :: "num list \<Rightarrow> num" where
  "num_sum xs = foldl num_add (Fin 0) xs"

definition series_std :: "num list \<Rightarrow> num" where
  "series_std xs =
     (let ys = filter (\<lambda>x. x \<noteq> NaN) xs;
          n = length ys
      in if n < 2 then NaN
         else
           (let avg = num_div (num_sum ys) (Fin (real n));
                sqr = map (\<lambda>y. num_mul (num_sub avg y) (num_sub avg y)) ys
            in num_sqrt (num_div (num_sum sqr) (Fin (real (n - 1))))))"

definition np_sqrt :: "number \<Rightarrow> number" where
  "np_sqrt a = Np (num_sqrt (val a))"

text \<open>\<^verbatim>\<open>returns.std() == 0 or np.isnan(returns.std())\<close>.\<close>

definition zero_or_nan :: "num \<Rightarrow> bool" where
  "zero_or_nan s = (num_eq s (Fin 0) \<or> s = NaN)"

definition log_returns :: "num list \<Rightarrow> num list" where
  "log_returns prices = series_log (series_div prices (shift1 prices))"

text \<open>
  Lines 894 to 916, the body of the \<^verbatim>\<open>try\<close>: the daily returns to use, with the entry
  that records the choice, then the annualised volatility. No entry is appended before
  the last statement that can raise, so the result is the volatility and the entries to
  append to the substituted values.
\<close>

definition choose_returns :: "stock_data \<Rightarrow> exc + (num list \<times> entries)" where
  "choose_returns sd =
     (case column sd ''Close'' of
        Inl e \<Rightarrow> Inl e
      | Inr close \<Rightarrow>
          if zero_or_nan (series_std (log_returns close)) then
            (case column sd ''Adj Close'' of
               Inl e \<Rightarrow> Inl e
             | Inr adj_close \<Rightarrow>
                 if zero_or_nan (series_std (log_returns adj_close)) then
                   (case column sd ''High'' of
                      Inl e \<Rightarrow> Inl e
                    | Inr high \<Rightarrow>
                        (case column sd ''Low'' of
                           Inl e \<Rightarrow> Inl e
                         | Inr low \<Rightarrow>
                             Inr (series_log (series_div high low),
                                  [Note ''Using high-low range for volatility calculation''])))
                 else Inr (log_returns adj_close,
                           [Note ''Using adjusted close prices for volatility'']))
          else Inr (log_returns close, []))"

definition equity_volatility :: "stock_data \<Rightarrow> exc + (number \<times> entries)" where
  "equity_volatility sd =
     (case choose_returns sd of
        Inl e \<Rightarrow> Inl e
      | Inr (returns, sv) \<Rightarrow>
          (let equity_vol = py_mul (Np (series_std returns)) (np_sqrt (PyInt 252)) in
           if val equity_vol = NaN \<or> num_eq (val equity_vol) (Fin 0) then
             Inr (Py (Fin (3 / 10)), sv @ [Note ''Using market average volatility (0.3)''])
           else Inr (equity_vol, sv)))"

subsection \<open>Market value of equity and face value of debt\<close>

text \<open>
  What a block of the function does: it raises (with the lists as they stand), it
  returns from the function, or it goes on with a value and the two lists.
\<close>

datatype 'a outcome = Raise exc entries entries | Return m_result | Next 'a entries entries

text \<open>\<^verbatim>\<open>stock_data['Close'].iloc[-1]\<close>.\<close>

definition latest_close :: "stock_data \<Rightarrow> exc + number" where
  "latest_close sd =
     (case column sd ''Close'' of
        Inl e \<Rightarrow> Inl e
      | Inr close \<Rightarrow> if close = [] then Inl IndexError else Inr (Np (last close)))"

text \<open>
  Lines 923 to 949. \<open>recalculated\<close> is the branch taken when
  \<^verbatim>\<open>is_problematic(market_cap)\<close> holds, which it does on \<^verbatim>\<open>None\<close>.
\<close>

definition m_market_cap ::
  "(string \<Rightarrow> pyval option) \<Rightarrow> stock_data \<Rightarrow> dataframe \<Rightarrow> entries \<Rightarrow> entries \<Rightarrow> number outcome" where
  "m_market_cap nfo sd bs pv sv =
     (let market_cap = info_get nfo ''marketCap'';
          recalculated =
            (let shares = info_get nfo ''sharesOutstanding'';
                 (shares, sv) =
                   (if is_problematic shares then
                      (let shares = info_get nfo ''floatShares'' in
                       if \<not> is_problematic shares then
                         (shares, sv @ [Note ''Using float shares instead of shares outstanding''])
                       else (shares, sv))
                    else (shares, sv));
                 price = info_get nfo ''currentPrice''
             in case (if is_problematic price then
                        (case latest_close sd of
                           Inl e \<Rightarrow> Inl e
                         | Inr p \<Rightarrow> Inr (PyNumber p, sv @ [Note ''Using latest closing price'']))
                      else Inr (price, sv)) of
                  Inl e \<Rightarrow> Raise e pv sv
                | Inr (price, sv) \<Rightarrow>
                    (case pyval_mul shares price of
                       Inl e \<Rightarrow> Raise e pv sv
                     | Inr market_cap \<Rightarrow>
                         if \<not> problematic market_cap then
                           Next market_cap pv
                                (sv @ [Note ''Market Cap (calculated from Shares * Price)''])
                         else
                           (let total_equity =
                                  fst (safe_get bs [''Total Equity'', ''TotalEquity''] 0)
                            in if \<not> problematic total_equity then
                                 Next (py_mul total_equity (Py (Fin (11 / 10)))) pv
                                      (sv @ [Note ''Using book value of equity with premium''])
                               else Return (None, None,
                                            pv @ [Note ''Market Value of Equity''], sv))))
      in case market_cap of
           PyNone \<Rightarrow> recalculated
         | PyNumber n \<Rightarrow>
             if is_problematic (PyNumber n) then recalculated else Next n pv sv)"

text \<open>Lines 951 to 973.\<close>

definition m_total_liabilities :: "dataframe \<Rightarrow> entries \<Rightarrow> entries \<Rightarrow> number outcome" where
  "m_total_liabilities bs pv sv =
     (let total_liabilities =
            fst (safe_get bs [''Total Liabilities Net Minority Interest'',
                              ''TotalLiabilities'', ''Total Liabilities''] 0)
      in if problematic total_liabilities then
           (let current_liabilities =
                  fst (safe_get bs [''Current Liabilities'', ''TotalCurrentLiabilities''] 0);
                long_term_debt = fst (safe_get bs [''Long Term Debt'', ''LongTermDebt''] 0);
                total_liabilities = py_add current_liabilities long_term_debt
            in if \<not> problematic total_liabilities then
                 Next total_liabilities pv
                   (sv @ [Note ''Total Liabilities (sum of current liabilities and long-term debt)''])
               else
                 (let total_debt = fst (safe_get bs [''Total Debt'', ''TotalDebt''] 0) in
                  if \<not> problematic total_debt then
                    Next (py_mul total_debt (Py (Fin (12 / 10)))) pv
                      (sv @ [Note ''Using total debt with adjustment for non-debt liabilities''])
                  else Return (None, None, pv @ [Note ''Total Liabilities''], sv)))
         else Next total_liabilities pv sv)"

subsection \<open>The iteration for asset value and asset volatility\<close>

definition rf_rate :: number where
  "rf_rate = Py (Fin (5 / 100))"

text \<open>The time horizon \<^verbatim>\<open>T = 1.0\<close>.\<close>

definition T_horizon :: number where
  "T_horizon = Py (Fin 1)"

definition max_iterations :: nat where
  "max_iterations = 100"

definition convergence_threshold :: number where
  "convergence_threshold = Py (Fin (1 / 10000))"

text \<open>
  Line 997, and line 1020 with the other sign: \<^verbatim>\<open>sigma_A**2\<close> is the product of
  \<open>sigma_A\<close> with itself.
\<close>

definition merton_d1 :: "number \<Rightarrow> number \<Rightarrow> number \<Rightarrow> exc + number" where
  "merton_d1 V_A total_liabilities sigma_A =
     (case py_div V_A total_liabilities of
        Inl e \<Rightarrow> Inl e
      | Inr q \<Rightarrow>
          py_div
            (py_add (np_log q)
               (py_mul (py_add rf_rate (py_mul (Py (Fin (1 / 2))) (py_mul sigma_A sigma_A)))
                       T_horizon))
            (py_mul sigma_A (np_sqrt T_horizon)))"

definition merton_dd :: "number \<Rightarrow> number \<Rightarrow> number \<Rightarrow> exc + number" where
  "merton_dd V_A total_liabilities sigma_A =
     (case py_div V_A total_liabilities of
        Inl e \<Rightarrow> Inl e
      | Inr q \<Rightarrow>
          py_div
            (py_add (np_log q)
               (py_mul (py_sub rf_rate (py_mul (Py (Fin (1 / 2))) (py_mul sigma_A sigma_A)))
                       T_horizon))
            (py_mul sigma_A (np_sqrt T_horizon)))"

text \<open>
  Lines 997 to 1001, the statements of one iteration that can raise: the new asset value
  and the new asset volatility. (\<open>d2\<close> of line 998 is computed and never used.)
\<close>

definition merton_step ::
  "(real \<Rightarrow> real) \<Rightarrow> number \<Rightarrow> number \<Rightarrow> number \<Rightarrow> number \<Rightarrow> number \<Rightarrow> exc + (number \<times> number)" where
  "merton_step Phi market_cap total_liabilities equity_vol V_A sigma_A =
     (case merton_d1 V_A total_liabilities sigma_A of
        Inl e \<Rightarrow> Inl e
      | Inr d1 \<Rightarrow>
          (case py_div market_cap (norm_cdf Phi d1) of
             Inl e \<Rightarrow> Inl e
           | Inr V_A_new \<Rightarrow>
               (case py_div (py_mul equity_vol market_cap) (py_mul V_A (norm_cdf Phi d1)) of
                  Inl e \<Rightarrow> Inl e
                | Inr sigma_A_new \<Rightarrow> Inr (V_A_new, sigma_A_new))))"

text \<open>
  Lines 995 to 1013: \<^verbatim>\<open>for i in range(max_iterations)\<close>. The first number counts the
  iterations that are left, the second is \<open>i\<close>. The result is \<open>V_A\<close>, \<open>sigma_A\<close>,
  \<open>converged\<close> and the entries appended to the problematic values.
\<close>

fun merton_loop ::
  "(real \<Rightarrow> real) \<Rightarrow> number \<Rightarrow> number \<Rightarrow> number \<Rightarrow> nat \<Rightarrow> nat \<Rightarrow> number \<Rightarrow> number \<Rightarrow>
   number \<times> number \<times> bool \<times> entries" where
  "merton_loop Phi market_cap total_liabilities equity_vol 0 i V_A sigma_A =
     (V_A, sigma_A, False, [])"
| "merton_loop Phi market_cap total_liabilities equity_vol (Suc k) i V_A sigma_A =
     (case merton_step Phi market_cap total_liabilities equity_vol V_A sigma_A of
        Inl e \<Rightarrow> (V_A, sigma_A, False, [IterErrNote i e])
      | Inr (V_A_new, sigma_A_new) \<Rightarrow>
          if py_lt (py_abs (py_sub V_A_new V_A)) convergence_threshold \<and>
             py_lt (py_abs (py_sub sigma_A_new sigma_A)) convergence_threshold
          then (V_A, sigma_A, True, [])
          else merton_loop Phi market_cap total_liabilities equity_vol k (Suc i)
                 (py_mul (Py (Fin (1 / 2))) (py_add V_A V_A_new))
                 (py_mul (Py (Fin (1 / 2))) (py_add sigma_A sigma_A_new)))"

text \<open>Lines 1018 to 1037: distance to default, probability of default, sanity checks.\<close>

definition merton_final ::
  "(real \<Rightarrow> real) \<Rightarrow> number \<Rightarrow> number \<Rightarrow> number \<Rightarrow> entries \<Rightarrow> entries \<Rightarrow> m_result" where
  "merton_final Phi total_liabilities V_A sigma_A pv sv =
     (case merton_dd V_A total_liabilities sigma_A of
        Inl e \<Rightarrow>
          (None, None, pv @ [ErrNote ''Error in final probability calculation: '' e], sv)
      | Inr distance_to_default \<Rightarrow>
          (let prob_default = norm_cdf Phi (py_neg distance_to_default) in
           if py_gt prob_default (Py (Fin (99 / 100))) then
             (Some (Py (Fin (99 / 100))), Some distance_to_default, pv,
              sv @ [Note ''Capped probability at 99%''])
           else if py_lt prob_default (Py (Fin (1 / 100))) then
             (Some (Py (Fin (1 / 100))), Some distance_to_default, pv,
              sv @ [Note ''Floored probability at 1%''])
           else (Some prob_default, Some distance_to_default, pv, sv)))"

text \<open>
  Lines 985 to 1037: the solver, from the market value of equity, the face value of debt
  and the equity volatility. \<open>merton_implied\<close> is the two initial guesses and the loop
  (lines 985 to 1013); \<open>Inl\<close> is an exception of the initial guesses, which the handler
  of the whole function catches.
\<close>

definition merton_implied ::
  "(real \<Rightarrow> real) \<Rightarrow> number \<Rightarrow> number \<Rightarrow> number \<Rightarrow> exc + (number \<times> number \<times> bool \<times> entries)" where
  "merton_implied Phi market_cap total_liabilities equity_vol =
     (let V_A = py_add market_cap total_liabilities in
      case py_div (py_mul equity_vol market_cap) V_A of
        Inl e \<Rightarrow> Inl e
      | Inr sigma_A \<Rightarrow>
          Inr (merton_loop Phi market_cap total_liabilities equity_vol max_iterations 0
                 V_A sigma_A))"

definition merton_solver ::
  "(real \<Rightarrow> real) \<Rightarrow> number \<Rightarrow> number \<Rightarrow> number \<Rightarrow> entries \<Rightarrow> entries \<Rightarrow>
   (exc \<times> entries \<times> entries) + m_result" where
  "merton_solver Phi market_cap total_liabilities equity_vol pv sv =
     attempt (merton_implied Phi market_cap total_liabilities equity_vol) pv sv
       (\<lambda>(V_A, sigma_A, converged, errors).
          let pv = pv @ errors;
              sv = (if \<not> converged
                    then sv @ [Note ''Using last iteration values (no convergence)'']
                    else sv)
          in Inr (merton_final Phi total_liabilities V_A sigma_A pv sv))"

subsection \<open>The calculator\<close>

text \<open>Lines 918 to 1037, inside the \<^verbatim>\<open>try\<close> of the whole function.\<close>

definition merton_rest ::
  "(real \<Rightarrow> real) \<Rightarrow> company \<Rightarrow> stock_data \<Rightarrow> number \<Rightarrow> entries \<Rightarrow> entries \<Rightarrow>
   (exc \<times> entries \<times> entries) + m_result" where
  "merton_rest Phi company sd equity_vol pv sv =
     attempt (balance_sheet company) pv sv (\<lambda>bs.
     attempt (income_stmt company) pv sv (\<lambda>inc.
     attempt (info company) pv sv (\<lambda>nfo.
       case m_market_cap nfo sd bs pv sv of
         Raise e pv sv \<Rightarrow> Inl (e, pv, sv)
       | Return r \<Rightarrow> Inr r
       | Next market_cap pv sv \<Rightarrow>
           (case m_total_liabilities bs pv sv of
              Raise e pv sv \<Rightarrow> Inl (e, pv, sv)
            | Return r \<Rightarrow> Inr r
            | Next total_liabilities pv sv \<Rightarrow>
                merton_solver Phi market_cap total_liabilities equity_vol pv sv))))"

definition calculate_merton_default :: "(real \<Rightarrow> real) \<Rightarrow> company \<Rightarrow> m_result" where
  "calculate_merton_default Phi company =
     (case fetch_stock_data company of
        Inl r \<Rightarrow> r
      | Inr (stock_data, pv, sv) \<Rightarrow>
          (case equity_volatility stock_data of
             Inl e \<Rightarrow> (None, None, pv @ [ErrNote ''Error calculating volatility: '' e], sv)
           | Inr (equity_vol, sv') \<Rightarrow>
               (case merton_rest Phi company stock_data equity_vol pv (sv @ sv') of
                  Inl (e, pv, sv) \<Rightarrow>
                    (None, None, pv @ [ErrNote ''Merton Model Calculation Error: '' e], sv)
                | Inr r \<Rightarrow> r)))"


subsection \<open>The probability as a function of the solver's inputs\<close>

text \<open>
  The probability of default that the solver returns for an equity value \<open>E\<close> (a Python
  float), a face value of debt \<open>F\<close> and an equity volatility
  \<open>sigma_E\<close> (numpy values), and the comparison \<^verbatim>\<open><\<close> of two probabilities that are
  present.
\<close>

definition merton_probability :: "(real \<Rightarrow> real) \<Rightarrow> real \<Rightarrow> real \<Rightarrow> real \<Rightarrow> number option" where
  "merton_probability Phi E F sigma_E =
     (case merton_solver Phi (Py (Fin E)) (Np (Fin F)) (Np (Fin sigma_E)) [] [] of
        Inl x \<Rightarrow> None
      | Inr (prob_default, r) \<Rightarrow> prob_default)"

definition prob_less :: "number option \<Rightarrow> number option \<Rightarrow> bool" where
  "prob_less p q = (case (p, q) of (Some a, Some b) \<Rightarrow> py_lt a b | _ \<Rightarrow> False)"

section \<open>The iteration as the specification words it\<close>

text \<open>
  Section 4.2 of the specification, steps 1 and 2: the initial guesses, then at most 100
  rounds, each computing \<open>d1\<close>, the new asset value and the new asset volatility,
  stopping when both moved by less than \<open>1e-4\<close> and damping otherwise. The result is the
  asset value, the asset volatility and whether the iteration converged. These
  definitions follow the words of the specification, not the code; the theorem of claim
  C1 compares them with \<open>merton_implied\<close>. The arithmetic is that of \<open>num\<close>, so
  that the formulas have a value for every input: where \<open>Phi(d1)\<close> is 0 the quotient
  \<open>E / Phi(d1)\<close> is an infinity, and the logarithm of a negative number is NaN.
  \<open>spec_d1\<close> is the formula for \<open>d1\<close> on the reals, which \<open>spec_d1_num\<close> extends.
\<close>

definition spec_d1 :: "real \<Rightarrow> real \<Rightarrow> real \<Rightarrow> real" where
  "spec_d1 F V_A sigma_A =
     (ln (V_A / F) + (5 / 100 + 1 / 2 * sigma_A ^ 2) * 1) / (sigma_A * sqrt 1)"

definition spec_d1_num :: "num \<Rightarrow> num \<Rightarrow> num \<Rightarrow> num" where
  "spec_d1_num F V_A sigma_A =
     num_div
       (num_add (num_log (num_div V_A F))
          (num_mul (num_add (Fin (5 / 100)) (num_mul (Fin (1 / 2)) (num_mul sigma_A sigma_A)))
                   (Fin 1)))
       (num_mul sigma_A (num_sqrt (Fin 1)))"

fun spec_iterate ::
  "(real \<Rightarrow> real) \<Rightarrow> num \<Rightarrow> num \<Rightarrow> num \<Rightarrow> nat \<Rightarrow> num \<Rightarrow> num \<Rightarrow> num \<times> num \<times> bool" where
  "spec_iterate Phi E F sigma_E 0 V_A sigma_A = (V_A, sigma_A, False)"
| "spec_iterate Phi E F sigma_E (Suc n) V_A sigma_A =
     (let d1 = spec_d1_num F V_A sigma_A;
          V_A_new = num_div E (num_cdf Phi d1);
          sigma_A_new = num_div (num_mul sigma_E E) (num_mul V_A (num_cdf Phi d1))
      in if num_lt (num_abs (num_sub V_A_new V_A)) (Fin (1 / 10000)) \<and>
            num_lt (num_abs (num_sub sigma_A_new sigma_A)) (Fin (1 / 10000))
         then (V_A, sigma_A, True)
         else spec_iterate Phi E F sigma_E n
                (num_mul (Fin (1 / 2)) (num_add V_A V_A_new))
                (num_mul (Fin (1 / 2)) (num_add sigma_A sigma_A_new)))"

definition spec_merton_iteration ::
  "(real \<Rightarrow> real) \<Rightarrow> num \<Rightarrow> num \<Rightarrow> num \<Rightarrow> num \<times> num \<times> bool" where
  "spec_merton_iteration Phi E F sigma_E =
     spec_iterate Phi E F sigma_E 100 (num_add E F) (num_div (num_mul sigma_E E) (num_add E F))"


section \<open>Sample data\<close>

text \<open>Concrete inputs, on which the theorems below are instantiated.\<close>

definition sample_statement :: dataframe where
  "sample_statement =
     \<lparr> df_index = [''Total Assets'', ''TotalAssets''], df_ncols = 1,
       df_cell = (\<lambda>key i. if key = ''TotalAssets'' then Fin 5 else NaN) \<rparr>"


text \<open>
  A function in the place of \<^verbatim>\<open>norm.cdf\<close> for the concrete instances: it increases
  strictly from 0 to 1, is one half at 0, and is below one hundredth at \<open>-3\<close>, as the
  normal distribution function is.
\<close>

definition Phi_sample :: "real \<Rightarrow> real" where
  "Phi_sample x = (1 + x / (1 / 20 + \<bar>x\<bar>)) / 2"

text \<open>A company with twelve days of prices and no statements.\<close>

definition short_history :: stock_data where
  "short_history = \<lparr> hist_len = 12, hist_col = (\<lambda>name. None) \<rparr>"

definition unlisted_company :: company where
  "unlisted_company =
     \<lparr> history = (\<lambda>period. Inr short_history),
       balance_sheet = Inl (OtherError ''no data''),
       income_stmt = Inl (OtherError ''no data''),
       info = Inl (OtherError ''no data'') \<rparr>"

text \<open>
  A company whose statements name total assets, retained earnings, total liabilities,
  EBIT, revenue and net income, and neither current assets nor current liabilities.
\<close>

definition sample_balance_sheet :: dataframe where
  "sample_balance_sheet =
     \<lparr> df_index = [''Total Assets'', ''Retained Earnings'',
                     ''Total Liabilities Net Minority Interest''],
       df_ncols = 2,
       df_cell = (\<lambda>key i.
         if key = ''Total Assets'' then Fin 1000
         else if key = ''Retained Earnings'' then Fin 200
         else if key = ''Total Liabilities Net Minority Interest'' then Fin 400
         else NaN) \<rparr>"

definition sample_income_stmt :: dataframe where
  "sample_income_stmt =
     \<lparr> df_index = [''EBIT'', ''Total Revenue'', ''Net Income''],
       df_ncols = 2,
       df_cell = (\<lambda>key i.
         if key = ''EBIT'' then Fin 100
         else if key = ''Total Revenue'' then Fin 500
         else if key = ''Net Income'' then (if i = 0 then Fin 60 else Fin 40)
         else NaN) \<rparr>"

definition sample_info :: "string \<Rightarrow> pyval option" where
  "sample_info = (\<lambda>key. if key = ''marketCap'' then Some (PyNumber (Py (Fin 800))) else None)"

definition sample_company :: company where
  "sample_company =
     \<lparr> history = (\<lambda>period. Inr short_history),
       balance_sheet = Inr sample_balance_sheet,
       income_stmt = Inr sample_income_stmt,
       info = Inr sample_info \<rparr>"

text \<open>
  The same company with current assets of 300 in its balance sheet, and still no current
  liabilities.
\<close>

definition liquid_balance_sheet :: dataframe where
  "liquid_balance_sheet =
     \<lparr> df_index = [''Total Assets'', ''Current Assets'', ''Retained Earnings'',
                     ''Total Liabilities Net Minority Interest''],
       df_ncols = 2,
       df_cell = (\<lambda>key i.
         if key = ''Total Assets'' then Fin 1000
         else if key = ''Current Assets'' then Fin 300
         else if key = ''Retained Earnings'' then Fin 200
         else if key = ''Total Liabilities Net Minority Interest'' then Fin 400
         else NaN) \<rparr>"

definition liquid_company :: company where
  "liquid_company =
     \<lparr> history = (\<lambda>period. Inr short_history),
       balance_sheet = Inr liquid_balance_sheet,
       income_stmt = Inr sample_income_stmt,
       info = Inr sample_info \<rparr>"


text \<open>The O-Score of the sample company.\<close>

definition sample_o_score :: real where
  "sample_o_score =
     - (132 / 100) - 407 / 1000 * ln 10000 + 603 / 100 * (400 / 1000) -
     183 / 100 * (60 / 1000) - 521 / 1000 * (20 / 100)"


text \<open>
  A function that, like \<^verbatim>\<open>norm.cdf\<close> in double precision, is exactly 0 far to the left
  and exactly 1 far to the right.
\<close>

definition Phi_clipped :: "real \<Rightarrow> real" where
  "Phi_clipped x = (if x \<le> - 39 then 0 else if 9 \<le> x then 1 else Phi_sample x)"








section \<open>Properties of the helper functions\<close>

lemma problematic_iff:
  "problematic n \<longleftrightarrow>
     (case val n of
        NaN \<Rightarrow> True | PInf \<Rightarrow> True | NInf \<Rightarrow> True
      | Fin x \<Rightarrow> x = 0 \<or> \<bar>x\<bar> < 1 / 1000000) \<or>
     (\<exists>k. n = PyInt k \<and> (2 ^ 64 \<le> k \<or> k < - (2 ^ 63)))"
  by (cases n; cases "val n"; simp add: problematic_def is_problematic_def
      is_problematic_test_def pd_isna_def np_isinf_def num_eq_def)

lemma not_problematic_Fin:
  "\<not> problematic n \<Longrightarrow> \<exists>x. val n = Fin x \<and> x \<noteq> 0 \<and> 1 / 1000000 \<le> \<bar>x\<bar>"
  by (auto simp: problematic_iff split: num.splits)

lemma safe_get_keys_find:
  "(case safe_get_keys df i keys of Inl e \<Rightarrow> (PyInt 0, None) | Inr r \<Rightarrow> r) =
     (case find (\<lambda>key. key \<in> set (df_index df) \<and> i < df_ncols df \<and>
                        \<not> is_problematic (PyNumber (Np (df_cell df key i)))) keys of
        Some key \<Rightarrow> (Np (df_cell df key i), Some key)
      | None \<Rightarrow> (PyInt 0, None))"
proof (cases "i < df_ncols df")
  case True
  then show ?thesis
    by (induction keys) (simp_all add: loc_iloc_def)
next
  case False
  then have "find (\<lambda>key. key \<in> set (df_index df) \<and> i < df_ncols df \<and>
                        \<not> is_problematic (PyNumber (Np (df_cell df key i)))) keys = None"
    by (simp add: find_None_iff)
  moreover from False have
    "(case safe_get_keys df i keys of Inl e \<Rightarrow> (PyInt 0, None) | Inr r \<Rightarrow> r) = (PyInt 0, None)"
    by (induction keys) (simp_all add: loc_iloc_def)
  ultimately show ?thesis by simp
qed

lemma problematic_np:
  "is_problematic (PyNumber (Np x)) \<longleftrightarrow>
     (x = NaN \<or> x = PInf \<or> x = NInf \<or> x = Fin 0 \<or> (\<exists>r. x = Fin r \<and> \<bar>r\<bar> < 1 / 1000000))"
  by (cases x) (simp_all add: is_problematic_def is_problematic_test_def pd_isna_def
      np_isinf_def num_eq_def)

text \<open>
  C7. For every statement and every list of candidate names, \<open>safe_get\<close> returns the
  value, with the name used, of the first name in the order of the list that is in the
  index of the statement and whose value in the period asked for (the most recent one for
  index 0) is not problematic, and the default \<open>(0, None)\<close> when no name qualifies. A
  value of a statement, a numpy \<^verbatim>\<open>float64\<close>, is problematic exactly when it is NaN,
  infinite, zero, or of absolute value below \<open>1e-6\<close>; and \<^verbatim>\<open>None\<close> is problematic.
  (The handler of \<open>is_problematic\<close>, which makes a value problematic when the test
  raises, is entered for no value of a statement: see \<open>np_isinf\<close>.)
\<close>

theorem safe_get_first_valid:
  "safe_get df keys i =
     (case find (\<lambda>key. key \<in> set (df_index df) \<and> i < df_ncols df \<and>
                        \<not> is_problematic (PyNumber (Np (df_cell df key i)))) keys of
        Some key \<Rightarrow> (Np (df_cell df key i), Some key)
      | None \<Rightarrow> (PyInt 0, None))
   \<and> (\<forall>x. is_problematic (PyNumber (Np x)) \<longleftrightarrow>
          (x = NaN \<or> x = PInf \<or> x = NInf \<or> x = Fin 0 \<or>
           (\<exists>r. x = Fin r \<and> \<bar>r\<bar> < 1 / 1000000)))
   \<and> is_problematic PyNone"
proof (intro conjI allI)
  show "safe_get df keys i =
     (case find (\<lambda>key. key \<in> set (df_index df) \<and> i < df_ncols df \<and>
                        \<not> is_problematic (PyNumber (Np (df_cell df key i)))) keys of
        Some key \<Rightarrow> (Np (df_cell df key i), Some key)
      | None \<Rightarrow> (PyInt 0, None))"
    unfolding safe_get_def by (rule safe_get_keys_find)
next
  fix x
  show "is_problematic (PyNumber (Np x)) \<longleftrightarrow>
          (x = NaN \<or> x = PInf \<or> x = NInf \<or> x = Fin 0 \<or>
           (\<exists>r. x = Fin r \<and> \<bar>r\<bar> < 1 / 1000000))"
    by (rule problematic_np)
next
  show "is_problematic PyNone"
    by (simp add: is_problematic_def is_problematic_test_def pd_isna_def)
qed

theorem safe_get_first_valid_witness:
  "safe_get sample_statement [''Total Assets'', ''TotalAssets''] 0 =
     (Np (Fin 5), Some ''TotalAssets'')
   \<and> is_problematic (PyNumber (Np NaN)) \<and> \<not> is_problematic (PyNumber (Np (Fin 5)))"
  using safe_get_first_valid [of sample_statement "[''Total Assets'', ''TotalAssets'']" 0]
  by (simp add: sample_statement_def is_problematic_def is_problematic_test_def pd_isna_def np_isinf_def num_eq_def)



section \<open>Absent results\<close>

text \<open>
  C6. When the price history has fewer than 30 daily observations for one year, and then
  for six months, and then for three months, \<open>calculate_merton_default\<close> returns no
  probability and no distance to default, and the problematic values are the one entry
  "Insufficient stock price history". The function returns this value: no exception
  leaves it.
\<close>

theorem insufficient_history:
  assumes "history company ''1y'' = Inr y1" and "hist_len y1 < 30"
    and "history company ''6mo'' = Inr m6" and "hist_len m6 < 30"
    and "history company ''3mo'' = Inr m3" and "hist_len m3 < 30"
  shows "calculate_merton_default Phi company =
           (None, None, [Note ''Insufficient stock price history''], [])"
  using assms by (simp add: calculate_merton_default_def fetch_stock_data_def)

theorem insufficient_history_witness:
  "history unlisted_company ''1y'' = Inr short_history \<and> hist_len short_history < 30 \<and>
   history unlisted_company ''6mo'' = Inr short_history \<and>
   history unlisted_company ''3mo'' = Inr short_history \<and>
   calculate_merton_default Phi_sample unlisted_company =
     (None, None, [Note ''Insufficient stock price history''], [])"
proof -
  have h: "history unlisted_company ''1y'' = Inr short_history"
    "history unlisted_company ''6mo'' = Inr short_history"
    "history unlisted_company ''3mo'' = Inr short_history"
    by (simp_all add: unlisted_company_def)
  have l: "hist_len short_history < 30" by (simp add: short_history_def)
  show ?thesis
    using insufficient_history [OF h(1) l h(2) l h(3) l, of Phi_sample] h l by simp
qed

lemma z_total_assets_Inr:
  "z_total_assets bs pv sv = Inr (ta, pv', sv') \<Longrightarrow> \<not> problematic ta"
  by (auto simp: z_total_assets_def Let_def split: if_splits)

lemma z_total_assets_Inl:
  "z_total_assets bs pv sv = Inl (z, pv', sv') \<Longrightarrow> pv' \<noteq> []"
  by (auto simp: z_total_assets_def Let_def split: if_splits)

lemma z_ratios_None:
  "z_ratios ta wc re e mv tlb s = Inr None \<Longrightarrow> problematic ta"
  by (auto simp: z_ratios_def split: if_splits sum.splits)

lemma z_score_body_None:
  "z_score_body yf t = Inr (None, pv, sv) \<Longrightarrow> pv \<noteq> []"
  unfolding z_score_body_def attempt_def
  by (auto simp: Let_def split: sum.splits prod.splits option.splits
      dest: z_total_assets_Inr z_total_assets_Inl z_ratios_None)

lemma calculate_z_score_None:
  "calculate_z_score yf t = (None, pv, sv) \<Longrightarrow> pv \<noteq> []"
  by (auto simp: calculate_z_score_def split: sum.splits prod.splits dest: z_score_body_None)


lemma o_total_assets_Inl:
  "o_total_assets bs pv sv = Inl (z, p, pv', sv') \<Longrightarrow> pv' \<noteq> []"
  by (auto simp: o_total_assets_def Let_def split: if_splits)

lemma o_score_body_None:
  "o_score_body c = Inr (z, p, pv, sv) \<Longrightarrow> z = None \<or> p = None \<Longrightarrow> pv \<noteq> []"
  unfolding o_score_body_def attempt_def
  by (auto simp: Let_def split: sum.splits prod.splits dest: o_total_assets_Inl)

lemma calculate_ohlson_score_None:
  "calculate_ohlson_score c = (z, p, pv, sv) \<Longrightarrow> z = None \<or> p = None \<Longrightarrow> pv \<noteq> []"
  by (auto simp: calculate_ohlson_score_def split: sum.splits prod.splits
      dest: o_score_body_None)

lemma fetch_stock_data_Inl:
  "fetch_stock_data c = Inl (p, d, pv, sv) \<Longrightarrow> pv \<noteq> []"
  by (auto simp: fetch_stock_data_def split: sum.splits if_splits)

lemma m_market_cap_Return:
  "m_market_cap nfo sd bs pv sv = Return (p, d, pv', sv') \<Longrightarrow> pv' \<noteq> []"
  unfolding m_market_cap_def
  by (auto simp: Let_def split: sum.splits prod.splits if_splits pyval.splits)

lemma m_total_liabilities_Return:
  "m_total_liabilities bs pv sv = Return (p, d, pv', sv') \<Longrightarrow> pv' \<noteq> []"
  unfolding m_total_liabilities_def
  by (auto simp: Let_def split: if_splits)

lemma merton_final_None:
  "merton_final Phi tlb V s pv sv = (p, d, pv', sv') \<Longrightarrow> p = None \<or> d = None \<Longrightarrow> pv' \<noteq> []"
  unfolding merton_final_def
  by (auto simp: Let_def split: sum.splits if_splits)

lemma merton_solver_None:
  "merton_solver Phi mc tlb ev pv sv = Inr (p, d, pv', sv') \<Longrightarrow> p = None \<or> d = None \<Longrightarrow>
   pv' \<noteq> []"
  unfolding merton_solver_def attempt_def
  by (auto simp: Let_def split: sum.splits prod.splits dest: merton_final_None)

lemma merton_rest_None:
  "merton_rest Phi c sd ev pv sv = Inr (p, d, pv', sv') \<Longrightarrow> p = None \<or> d = None \<Longrightarrow>
   pv' \<noteq> []"
  unfolding merton_rest_def attempt_def
  by (auto split: sum.splits outcome.splits
      dest: merton_solver_None m_market_cap_Return m_total_liabilities_Return)

lemma calculate_merton_default_None:
  "calculate_merton_default Phi c = (p, d, pv, sv) \<Longrightarrow> p = None \<or> d = None \<Longrightarrow> pv \<noteq> []"
  unfolding calculate_merton_default_def
  by (auto split: sum.splits prod.splits dest: fetch_stock_data_Inl merton_rest_None)

text \<open>
  C8. For each of the three calculators and every input: when the score or probability
  returned is absent (\<^verbatim>\<open>None\<close>), the list of problematic values returned is not empty.
\<close>

theorem absent_score_explained:
  "(fst (calculate_z_score yf ticker) = None \<longrightarrow>
      fst (snd (calculate_z_score yf ticker)) \<noteq> []) \<and>
   (fst (calculate_ohlson_score company) = None \<or>
    fst (snd (calculate_ohlson_score company)) = None \<longrightarrow>
      fst (snd (snd (calculate_ohlson_score company))) \<noteq> []) \<and>
   (fst (calculate_merton_default Phi company) = None \<or>
    fst (snd (calculate_merton_default Phi company)) = None \<longrightarrow>
      fst (snd (snd (calculate_merton_default Phi company))) \<noteq> [])"
proof (intro conjI impI)
  assume "fst (calculate_z_score yf ticker) = None"
  then show "fst (snd (calculate_z_score yf ticker)) \<noteq> []"
    using calculate_z_score_None [of yf ticker]
    by (cases "calculate_z_score yf ticker") auto
next
  assume "fst (calculate_ohlson_score company) = None \<or>
    fst (snd (calculate_ohlson_score company)) = None"
  then show "fst (snd (snd (calculate_ohlson_score company))) \<noteq> []"
    using calculate_ohlson_score_None [of company]
    by (cases "calculate_ohlson_score company") auto
next
  assume "fst (calculate_merton_default Phi company) = None \<or>
    fst (snd (calculate_merton_default Phi company)) = None"
  then show "fst (snd (snd (calculate_merton_default Phi company))) \<noteq> []"
    using calculate_merton_default_None [of Phi company]
    by (cases "calculate_merton_default Phi company") auto
qed

theorem absent_score_explained_witness:
  "fst (calculate_z_score (\<lambda>t. Inr unlisted_company) ''XYZ'') = None \<and>
   fst (snd (calculate_z_score (\<lambda>t. Inr unlisted_company) ''XYZ'')) \<noteq> [] \<and>
   fst (calculate_ohlson_score unlisted_company) = None \<and>
   fst (snd (snd (calculate_ohlson_score unlisted_company))) \<noteq> [] \<and>
   fst (calculate_merton_default Phi_sample unlisted_company) = None \<and>
   fst (snd (snd (calculate_merton_default Phi_sample unlisted_company))) \<noteq> []"
proof -
  have z: "fst (calculate_z_score (\<lambda>t. Inr unlisted_company) ''XYZ'') = None"
    by (simp add: calculate_z_score_def z_score_body_def attempt_def unlisted_company_def)
  have o: "fst (calculate_ohlson_score unlisted_company) = None"
    by (simp add: calculate_ohlson_score_def o_score_body_def attempt_def unlisted_company_def)
  have m: "fst (calculate_merton_default Phi_sample unlisted_company) = None"
    by (simp add: calculate_merton_default_def fetch_stock_data_def unlisted_company_def
        short_history_def)
  show ?thesis
    using absent_score_explained [of "\<lambda>t. Inr unlisted_company" "''XYZ''" unlisted_company
        Phi_sample] z o m
    by simp
qed



section \<open>The default of the field resolver\<close>

lemma safe_get_none:
  assumes "\<forall>key \<in> set keys. key \<notin> set (df_index df) \<or> df_ncols df \<le> i \<or>
             is_problematic (PyNumber (Np (df_cell df key i)))"
  shows "safe_get df keys i = (PyInt 0, None)"
proof -
  have "find (\<lambda>key. key \<in> set (df_index df) \<and> i < df_ncols df \<and>
                        \<not> is_problematic (PyNumber (Np (df_cell df key i)))) keys = None"
    using assms by (auto simp: find_None_iff)
  then show ?thesis
    using safe_get_keys_find [of df i keys] by (simp add: safe_get_def)
qed

lemma problematic_zero: "is_problematic (PyNumber (PyInt 0))"
  by (simp add: is_problematic_def is_problematic_test_def pd_isna_def np_isinf_def num_eq_def)

lemma val_lift2 [simp]: "val (lift2 f a b) = f (val a) (val b)"
  by (simp add: lift2_def)

lemma val_py_ops [simp]:
  "val (py_add a b) = num_add (val a) (val b)"
  "val (py_sub a b) = num_sub (val a) (val b)"
  "val (py_mul a b) = num_mul (val a) (val b)"
  by (cases a; cases b; simp add: py_add_def py_sub_def py_mul_def lift2i_def num_sub_def)+

lemma py_div_nonzero:
  "val b \<noteq> Fin 0 \<or> is_np b \<Longrightarrow> py_div a b = Inr (lift2 num_div a b)"
  by (auto simp: py_div_def)

lemma z_score_direct:
  fixes a r e m l s c d :: real
  assumes co: "yf ticker = Inr company" "balance_sheet company = Inr bs"
      "income_stmt company = Inr inc" "info company = Inr nfo"
    and ta: "safe_get bs [''Total Assets'', ''TotalAssets''] 0 = (ta, kta)"
      "\<not> problematic ta" "val ta = Fin a"
    and re: "safe_get bs [''Retained Earnings'', ''RetainedEarnings''] 0 = (re, kre)"
      "\<not> problematic re" "val re = Fin r"
    and eb: "safe_get inc [''EBIT'', ''OperatingIncome''] 0 = (ebit, keb)"
      "\<not> problematic ebit" "val ebit = Fin e"
    and mv: "nfo ''marketCap'' = Some (PyNumber mv)" "\<not> problematic mv" "val mv = Fin m"
    and tl: "safe_get bs [''Total Liabilities Net Minority Interest'', ''TotalLiabilities'',
               ''Total Liabilities''] 0 = (tlb, ktl)" "\<not> problematic tlb" "val tlb = Fin l"
    and sa: "safe_get inc [''Total Revenue'', ''TotalRevenue'', ''Revenue''] 0 = (sales, ksa)"
      "\<not> problematic sales" "val sales = Fin s"
    and ca: "safe_get bs [''Current Assets'', ''CurrentAssets'', ''TotalCurrentAssets''] 0 =
               (ca, kca)" "val ca = Fin c"
    and cl: "safe_get bs [''Current Liabilities'', ''CurrentLiabilities'',
               ''TotalCurrentLiabilities''] 0 = (cl, kcl)" "val cl = Fin d"
  shows "\<exists>z. calculate_z_score yf ticker = (Some z, [], []) \<and>
           val z = Fin (12 / 10 * ((c - d) / a) + 14 / 10 * (r / a) + 33 / 10 * (e / a) +
                        6 / 10 * (m / l) + 1 * (s / a))"
proof -
  have nz: "a \<noteq> 0" "l \<noteq> 0"
    using ta tl by (auto simp: problematic_iff)
  have d: "\<And>x. py_div x ta = Inr (lift2 num_div x ta)" "\<And>x. py_div x tlb = Inr (lift2 num_div x tlb)"
    using nz ta tl by (simp_all add: py_div_nonzero)
  have t: "z_total_assets bs [] [] = Inr (ta, [], [])"
    using ta by (simp add: z_total_assets_def)
  have w: "z_working_capital bs = py_sub ca cl"
    using ca cl by (simp add: z_working_capital_def)
  have r: "z_retained_earnings bs [] [] = (re, [], [])"
    using re by (simp add: z_retained_earnings_def)
  have e: "z_ebit inc [] [] = (ebit, [], [])"
    using eb by (simp add: z_ebit_def)
  have m: "z_market_value nfo [] [] = Inr (mv, [], [])"
    using mv by (simp add: z_market_value_def info_get_def problematic_def)
  have s: "z_sales inc [] [] = (sales, [], [])"
    using sa by (simp add: z_sales_def)
  show ?thesis
    using co t w r e m s tl ta d nz re eb mv sa ca cl
    by (simp add: calculate_z_score_def z_score_body_def attempt_def z_ratios_def num_sub_def)
qed


text \<open>
  C10. When no candidate name yields a value that is not problematic (a lookup that
  raises included: the period asked for is not in the statement), \<open>safe_get\<close> returns
  exactly \<open>(0, None)\<close>, and \<open>is_problematic\<close> holds of this 0. A caller that uses the
  value unchecked computes with it in silence: for a company whose other figures resolve
  directly, whose current assets are resolved to \<open>c\<close> (by a name of the statement, or to
  the default as well) and whose statement has no usable current liabilities,
  \<open>calculate_z_score\<close> returns the score with the working capital \<open>c - 0\<close>, and both
  lists are empty.
\<close>

theorem sentinel_zero_unrecorded:
  fixes a r e m l s c :: real
  assumes co: "yf ticker = Inr company" "balance_sheet company = Inr bs"
      "income_stmt company = Inr inc" "info company = Inr nfo"
    and ta: "safe_get bs [''Total Assets'', ''TotalAssets''] 0 = (ta, kta)"
      "\<not> problematic ta" "val ta = Fin a"
    and re: "safe_get bs [''Retained Earnings'', ''RetainedEarnings''] 0 = (re, kre)"
      "\<not> problematic re" "val re = Fin r"
    and eb: "safe_get inc [''EBIT'', ''OperatingIncome''] 0 = (ebit, keb)"
      "\<not> problematic ebit" "val ebit = Fin e"
    and mv: "nfo ''marketCap'' = Some (PyNumber mv)" "\<not> problematic mv" "val mv = Fin m"
    and tl: "safe_get bs [''Total Liabilities Net Minority Interest'', ''TotalLiabilities'',
               ''Total Liabilities''] 0 = (tlb, ktl)" "\<not> problematic tlb" "val tlb = Fin l"
    and sa: "safe_get inc [''Total Revenue'', ''TotalRevenue'', ''Revenue''] 0 = (sales, ksa)"
      "\<not> problematic sales" "val sales = Fin s"
    and ca: "safe_get bs [''Current Assets'', ''CurrentAssets'', ''TotalCurrentAssets''] 0 =
               (ca, kca)" "val ca = Fin c"
    and cl: "\<forall>key \<in> set [''Current Liabilities'', ''CurrentLiabilities'',
                            ''TotalCurrentLiabilities''].
               key \<notin> set (df_index bs) \<or> df_ncols bs \<le> 0 \<or>
               is_problematic (PyNumber (Np (df_cell bs key 0)))"
  shows "(\<forall>df keys i.
            (\<forall>key \<in> set keys. key \<notin> set (df_index df) \<or> df_ncols df \<le> i \<or>
               is_problematic (PyNumber (Np (df_cell df key i)))) \<longrightarrow>
            safe_get df keys i = (PyInt 0, None)) \<and>
         is_problematic (PyNumber (PyInt 0)) \<and>
         safe_get bs [''Current Liabilities'', ''CurrentLiabilities'',
                      ''TotalCurrentLiabilities''] 0 = (PyInt 0, None) \<and>
         (\<exists>z. calculate_z_score yf ticker = (Some z, [], []) \<and>
              val z = Fin (12 / 10 * ((c - 0) / a) + 14 / 10 * (r / a) + 33 / 10 * (e / a) +
                           6 / 10 * (m / l) + 1 * (s / a)))"
proof -
  have g: "\<forall>df keys i.
            (\<forall>key \<in> set keys. key \<notin> set (df_index df) \<or> df_ncols df \<le> i \<or>
               is_problematic (PyNumber (Np (df_cell df key i)))) \<longrightarrow>
            safe_get df keys i = (PyInt 0, None)"
    using safe_get_none by blast
  have cl': "safe_get bs [''Current Liabilities'', ''CurrentLiabilities'',
                      ''TotalCurrentLiabilities''] 0 = (PyInt 0, None)"
    using cl by (rule safe_get_none)
  have v0: "val (PyInt 0) = Fin 0" by simp
  show ?thesis
    using g problematic_zero cl'
      z_score_direct [where yf = yf and ticker = ticker, OF co ta re eb mv tl sa ca cl' v0]
    by blast
qed

theorem sentinel_zero_unrecorded_witness:
  "safe_get liquid_balance_sheet [''Total Assets'', ''TotalAssets''] 0 =
     (Np (Fin 1000), Some ''Total Assets'') \<and>
   \<not> problematic (Np (Fin 1000)) \<and>
   safe_get liquid_balance_sheet
     [''Current Assets'', ''CurrentAssets'', ''TotalCurrentAssets''] 0 =
     (Np (Fin 300), Some ''Current Assets'') \<and>
   safe_get liquid_balance_sheet
     [''Current Liabilities'', ''CurrentLiabilities'', ''TotalCurrentLiabilities''] 0 =
     (PyInt 0, None) \<and>
   is_problematic (PyNumber (PyInt 0)) \<and>
   (\<exists>z. calculate_z_score (\<lambda>t. Inr liquid_company) ''XYZ'' = (Some z, [], []) \<and>
        val z = Fin (267 / 100))"
proof -
  have sg:
    "safe_get liquid_balance_sheet [''Total Assets'', ''TotalAssets''] 0 =
       (Np (Fin 1000), Some ''Total Assets'')"
    "safe_get liquid_balance_sheet [''Retained Earnings'', ''RetainedEarnings''] 0 =
       (Np (Fin 200), Some ''Retained Earnings'')"
    "safe_get sample_income_stmt [''EBIT'', ''OperatingIncome''] 0 =
       (Np (Fin 100), Some ''EBIT'')"
    "safe_get liquid_balance_sheet [''Total Liabilities Net Minority Interest'',
       ''TotalLiabilities'', ''Total Liabilities''] 0 =
       (Np (Fin 400), Some ''Total Liabilities Net Minority Interest'')"
    "safe_get sample_income_stmt [''Total Revenue'', ''TotalRevenue'', ''Revenue''] 0 =
       (Np (Fin 500), Some ''Total Revenue'')"
    "safe_get liquid_balance_sheet
       [''Current Assets'', ''CurrentAssets'', ''TotalCurrentAssets''] 0 =
       (Np (Fin 300), Some ''Current Assets'')"
    by (simp_all add: safe_get_def liquid_balance_sheet_def sample_income_stmt_def
        loc_iloc_def problematic_np)
  have np: "\<not> problematic (Np (Fin 1000))" "\<not> problematic (Np (Fin 200))"
    "\<not> problematic (Np (Fin 100))" "\<not> problematic (Py (Fin 800))"
    "\<not> problematic (Np (Fin 400))" "\<not> problematic (Np (Fin 500))"
    by (simp_all add: problematic_iff)
  have cl: "\<forall>key \<in> set [''Current Liabilities'', ''CurrentLiabilities'',
                            ''TotalCurrentLiabilities''].
               key \<notin> set (df_index liquid_balance_sheet) \<or> df_ncols liquid_balance_sheet \<le> 0 \<or>
               is_problematic (PyNumber (Np (df_cell liquid_balance_sheet key 0)))"
    by (simp add: liquid_balance_sheet_def)
  have "balance_sheet liquid_company = Inr liquid_balance_sheet"
    "income_stmt liquid_company = Inr sample_income_stmt"
    "info liquid_company = Inr sample_info"
    "sample_info ''marketCap'' = Some (PyNumber (Py (Fin 800)))"
    by (simp_all add: liquid_company_def sample_info_def)
  from sentinel_zero_unrecorded [where yf = "\<lambda>t. Inr liquid_company" and ticker = "''XYZ''",
      OF refl this(1-3) sg(1) np(1) _ sg(2) np(2) _ sg(3) np(3) _ this(4) np(4) _
         sg(4) np(5) _ sg(5) np(6) _ sg(6) _ cl,
      of 1000 200 100 800 400 500 300]
  show ?thesis using sg(1) sg(6) np(1) by simp
qed



section \<open>The O-Score formula\<close>

lemma o_score_formula_val:
  assumes "val (size' t) = Fin s" "val (tlta t) = Fin tla" "val (wcta t) = Fin w"
    "val (clca t) = Fin c" "val (oeneg t) = Fin oe" "val (nita t) = Fin n"
    "val (intwo t) = Fin i" "val (chin t) = Fin ch"
  shows "val (o_score_formula t) =
           Fin (- (132 / 100) - 407 / 1000 * s + 603 / 100 * tla - 143 / 100 * w +
                757 / 10000 * c + 237 / 100 * oe - 183 / 100 * n + 285 / 1000 * i -
                172 / 100 * oe - 521 / 1000 * ch)"
  using assms by (simp add: o_score_formula_def num_sub_def)

lemma o_prob_default_val:
  assumes "o_prob_default o_score = Inr p" "val o_score = Fin x"
  shows "val p = Fin (1 / (1 + exp (- x)))"
proof -
  have "val (py_neg o_score) = Fin (- x)"
    using assms(2) by (cases o_score) simp_all
  moreover have "1 + exp (- x) \<noteq> 0"
    using exp_gt_zero [of "- x"] by linarith
  ultimately show ?thesis
    using assms(1)
    by (auto simp: o_prob_default_def math_exp_def py_div_def lift2_def py_add_def lift2i_def
        split: if_splits sum.splits)
qed

lemma o_score_body_Some:
  assumes "o_score_body company = Inr (Some o_score, Some prob_default, pv, sv)"
  shows "\<exists>bs inc ta pv0 sv0 t.
           balance_sheet company = Inr bs \<and> income_stmt company = Inr inc \<and>
           o_total_assets bs [] [] = Inr (ta, pv0, sv0) \<and>
           o_terms_of bs inc ta pv0 sv0 = Inr (t, pv, sv) \<and>
           o_score = o_score_formula t \<and> o_prob_default o_score = Inr prob_default"
  using assms unfolding o_score_body_def attempt_def
  by (auto simp: Let_def o_total_assets_def split: sum.splits prod.splits if_splits)


text \<open>
  C9. Whenever \<open>calculate_ohlson_score\<close> returns a score, the score is the formula of
  lines 855 and 856 applied to the terms the function computed from the statements:
  \<open>-1.32 - 0.407*size + 6.03*tlta - 1.43*wcta + 0.0757*clca + 2.37*oeneg - 1.83*nita +
  0.285*intwo - 1.72*oeneg - 0.521*chin\<close>, in which \<open>oeneg\<close> stands twice and
  contributes \<open>0.65*oeneg\<close> in all; and the probability returned with it is
  \<open>1 / (1 + exp(-o_score))\<close>.
\<close>

theorem ohlson_score_formula:
  assumes "calculate_ohlson_score company = (Some o_score, Some prob_default, pv, sv)"
  shows "\<exists>bs inc ta pv0 sv0 t.
           balance_sheet company = Inr bs \<and> income_stmt company = Inr inc \<and>
           o_total_assets bs [] [] = Inr (ta, pv0, sv0) \<and>
           o_terms_of bs inc ta pv0 sv0 = Inr (t, pv, sv) \<and>
           o_score = o_score_formula t \<and>
           (\<forall>s tla w c oe n i ch.
              val (size' t) = Fin s \<and> val (tlta t) = Fin tla \<and> val (wcta t) = Fin w \<and>
              val (clca t) = Fin c \<and> val (oeneg t) = Fin oe \<and> val (nita t) = Fin n \<and>
              val (intwo t) = Fin i \<and> val (chin t) = Fin ch \<longrightarrow>
              val o_score =
                Fin (- (132 / 100) - 407 / 1000 * s + 603 / 100 * tla - 143 / 100 * w +
                     757 / 10000 * c + 237 / 100 * oe - 183 / 100 * n + 285 / 1000 * i -
                     172 / 100 * oe - 521 / 1000 * ch) \<and>
              val o_score =
                Fin (- (132 / 100) - 407 / 1000 * s + 603 / 100 * tla - 143 / 100 * w +
                     757 / 10000 * c + 65 / 100 * oe - 183 / 100 * n + 285 / 1000 * i -
                     521 / 1000 * ch)) \<and>
           (\<forall>x. val o_score = Fin x \<longrightarrow> val prob_default = Fin (1 / (1 + exp (- x))))"
proof -
  from assms have "o_score_body company = Inr (Some o_score, Some prob_default, pv, sv)"
    by (auto simp: calculate_ohlson_score_def split: sum.splits prod.splits)
  from o_score_body_Some [OF this] obtain bs inc ta pv0 sv0 t where
    p: "balance_sheet company = Inr bs" "income_stmt company = Inr inc"
       "o_total_assets bs [] [] = Inr (ta, pv0, sv0)"
       "o_terms_of bs inc ta pv0 sv0 = Inr (t, pv, sv)"
       "o_score = o_score_formula t" "o_prob_default o_score = Inr prob_default"
    by blast
  have f: "\<forall>s tla w c oe n i ch.
              val (size' t) = Fin s \<and> val (tlta t) = Fin tla \<and> val (wcta t) = Fin w \<and>
              val (clca t) = Fin c \<and> val (oeneg t) = Fin oe \<and> val (nita t) = Fin n \<and>
              val (intwo t) = Fin i \<and> val (chin t) = Fin ch \<longrightarrow>
              val o_score =
                Fin (- (132 / 100) - 407 / 1000 * s + 603 / 100 * tla - 143 / 100 * w +
                     757 / 10000 * c + 237 / 100 * oe - 183 / 100 * n + 285 / 1000 * i -
                     172 / 100 * oe - 521 / 1000 * ch) \<and>
              val o_score =
                Fin (- (132 / 100) - 407 / 1000 * s + 603 / 100 * tla - 143 / 100 * w +
                     757 / 10000 * c + 65 / 100 * oe - 183 / 100 * n + 285 / 1000 * i -
                     521 / 1000 * ch)"
  proof (intro allI impI, elim conjE)
    fix s tla w c oe n i ch
    assume v: "val (size' t) = Fin s" "val (tlta t) = Fin tla" "val (wcta t) = Fin w"
      "val (clca t) = Fin c" "val (oeneg t) = Fin oe" "val (nita t) = Fin n"
      "val (intwo t) = Fin i" "val (chin t) = Fin ch"
    have 1: "val o_score =
                Fin (- (132 / 100) - 407 / 1000 * s + 603 / 100 * tla - 143 / 100 * w +
                     757 / 10000 * c + 237 / 100 * oe - 183 / 100 * n + 285 / 1000 * i -
                     172 / 100 * oe - 521 / 1000 * ch)"
      unfolding p(5) by (rule o_score_formula_val [OF v])
    have 2: "- (132 / 100) - 407 / 1000 * s + 603 / 100 * tla - 143 / 100 * w +
                     757 / 10000 * c + 237 / 100 * oe - 183 / 100 * n + 285 / 1000 * i -
                     172 / 100 * oe - 521 / 1000 * ch =
             - (132 / 100) - 407 / 1000 * s + 603 / 100 * tla - 143 / 100 * w +
                     757 / 10000 * c + 65 / 100 * oe - 183 / 100 * n + 285 / 1000 * i -
                     521 / 1000 * ch"
      by (simp add: algebra_simps)
    show "val o_score =
                Fin (- (132 / 100) - 407 / 1000 * s + 603 / 100 * tla - 143 / 100 * w +
                     757 / 10000 * c + 237 / 100 * oe - 183 / 100 * n + 285 / 1000 * i -
                     172 / 100 * oe - 521 / 1000 * ch) \<and>
              val o_score =
                Fin (- (132 / 100) - 407 / 1000 * s + 603 / 100 * tla - 143 / 100 * w +
                     757 / 10000 * c + 65 / 100 * oe - 183 / 100 * n + 285 / 1000 * i -
                     521 / 1000 * ch)"
      using 1 2 by simp
  qed
  have g: "\<forall>x. val o_score = Fin x \<longrightarrow> val prob_default = Fin (1 / (1 + exp (- x)))"
    using o_prob_default_val [OF p(6)] by blast
  show ?thesis using p(1-5) f g by blast
qed


lemma sample_exp_bound: "\<not> dbl_max < exp (- sample_o_score)"
proof -
  have l: "0 \<le> ln (10000::real)" by simp
  have "- sample_o_score \<le> ln 10000"
    using l unfolding sample_o_score_def by linarith
  then have "exp (- sample_o_score) \<le> exp (ln 10000)"
    by (simp only: exp_le_cancel_iff)
  also have "\<dots> = 10000" by simp
  also have "\<dots> \<le> dbl_max" by (simp add: dbl_max_def)
  finally show ?thesis by simp
qed

lemma sample_terms:
  "o_terms_of sample_balance_sheet sample_income_stmt (Np (Fin 1000)) [] [] =
     Inr (\<lparr> size' = Py (Fin (ln 10000)), tlta = Np (Fin (400 / 1000)), wcta = Np (Fin 0),
             clca = PyInt 0, oeneg = PyInt 0, nita = Np (Fin (60 / 1000)),
             intwo = PyInt 0, chin = Np (Fin (20 / 100)) \<rparr>, [], [])"
  by (simp add: o_terms_of_def attempt_def math_log_def py_max_def py_gt_def py_lt_def
      safe_get_def sample_balance_sheet_def sample_income_stmt_def loc_iloc_def
      is_problematic_def is_problematic_test_def problematic_def pd_isna_def np_isinf_def num_eq_def
      py_div_def lift2_def py_sub_def lift2i_def py_add_def num_sub_def o_net_income_def o_change_def Let_def)


lemma sample_ohlson:
  "calculate_ohlson_score sample_company =
     (Some (Np (Fin sample_o_score)), Some (Py (Fin (1 / (1 + exp (- sample_o_score))))),
      [], [])"
proof -
  have t: "o_total_assets sample_balance_sheet [] [] = Inr (Np (Fin 1000), [], [])"
    by (simp add: o_total_assets_def safe_get_def sample_balance_sheet_def loc_iloc_def
        is_problematic_def is_problematic_test_def problematic_def pd_isna_def np_isinf_def num_eq_def)
  have f: "o_score_formula \<lparr> size' = Py (Fin (ln 10000)), tlta = Np (Fin (400 / 1000)),
             wcta = Np (Fin 0), clca = PyInt 0, oeneg = PyInt 0,
             nita = Np (Fin (60 / 1000)), intwo = PyInt 0, chin = Np (Fin (20 / 100)) \<rparr> =
           Np (Fin sample_o_score)"
    by (simp add: o_score_formula_def py_sub_def lift2i_def py_add_def py_mul_def lift2_def num_sub_def
        sample_o_score_def)
  have p: "o_prob_default (Np (Fin sample_o_score)) =
             Inr (Py (Fin (1 / (1 + exp (- sample_o_score)))))"
  proof -
    have "1 + exp (- sample_o_score) \<noteq> 0"
      using exp_gt_zero [of "- sample_o_score"] by linarith
    then show ?thesis
      using sample_exp_bound
      by (simp add: o_prob_default_def math_exp_def py_div_def py_add_def lift2i_def lift2_def)
  qed
  show ?thesis
    using t sample_terms f p
    by (simp add: calculate_ohlson_score_def o_score_body_def attempt_def sample_company_def)
qed

theorem ohlson_score_formula_witness:
  "calculate_ohlson_score sample_company =
     (Some (Np (Fin sample_o_score)), Some (Py (Fin (1 / (1 + exp (- sample_o_score))))),
      [], []) \<and>
   (\<exists>bs inc ta pv0 sv0 t.
      balance_sheet sample_company = Inr bs \<and> income_stmt sample_company = Inr inc \<and>
      o_total_assets bs [] [] = Inr (ta, pv0, sv0) \<and>
      o_terms_of bs inc ta pv0 sv0 = Inr (t, [], []) \<and>
      Np (Fin sample_o_score) = o_score_formula t)"
  using ohlson_score_formula [OF sample_ohlson] sample_ohlson by blast



section \<open>The Merton iteration\<close>

lemma is_np_lift2 [simp]: "is_np (lift2 f a b) = (is_np a \<or> is_np b)"
  by (simp add: lift2_def)

lemma is_np_py_ops [simp]:
  "is_np (py_add a b) = (is_np a \<or> is_np b)"
  "is_np (py_sub a b) = (is_np a \<or> is_np b)"
  "is_np (py_mul a b) = (is_np a \<or> is_np b)"
  "is_np (np_log a)" "is_np (np_sqrt a)" "is_np (norm_cdf Phi a)"
  by (cases a; cases b;
      simp add: py_add_def py_sub_def py_mul_def lift2i_def np_log_def np_sqrt_def
        norm_cdf_def)+

lemma val_np_ops [simp]:
  "val (np_log a) = num_log (val a)"
  "val (np_sqrt a) = num_sqrt (val a)"
  "val (norm_cdf Phi a) = num_cdf Phi (val a)"
  "val (py_abs a) = num_abs (val a)"
  "val (py_neg a) = num_neg (val a)"
  by (cases a; simp add: np_log_def np_sqrt_def norm_cdf_def)+

lemma py_div_np: "is_np b \<Longrightarrow> py_div a b = Inr (lift2 num_div a b)"
  by (simp add: py_div_def)

lemma py_div_fin: "val b = Fin y \<Longrightarrow> y \<noteq> 0 \<Longrightarrow> py_div a b = Inr (lift2 num_div a b)"
  by (simp add: py_div_def)

lemma val_consts [simp]:
  "val rf_rate = Fin (5 / 100)" "val T_horizon = Fin 1"
  "val convergence_threshold = Fin (1 / 10000)"
  by (simp_all add: rf_rate_def T_horizon_def convergence_threshold_def)

lemma merton_d1_fin:
  assumes "val tlb = Fin F" "val V = Fin v" "val S = Fin s" "F \<noteq> 0" "s \<noteq> 0" "0 < v / F"
  shows "\<exists>d. merton_d1 V tlb S = Inr d \<and> val d = Fin (spec_d1 F v s)"
  using assms
  by (simp add: merton_d1_def py_div_fin py_div_np spec_d1_def power2_eq_square)

lemma merton_step_fin:
  assumes "val mc = Fin E" "val tlb = Fin F" "val ev = Fin sg" "val V = Fin v" "val S = Fin s"
    "F \<noteq> 0" "s \<noteq> 0" "0 < v / F" "Phi (spec_d1 F v s) \<noteq> 0"
  shows "\<exists>Vn Sn. merton_step Phi mc tlb ev V S = Inr (Vn, Sn) \<and>
           val Vn = Fin (E / Phi (spec_d1 F v s)) \<and>
           val Sn = Fin (sg * E / (v * Phi (spec_d1 F v s)))"
proof -
  from merton_d1_fin [OF assms(2,4,5,6,7,8)] obtain d where
    d: "merton_d1 V tlb S = Inr d" "val d = Fin (spec_d1 F v s)" by blast
  have "v \<noteq> 0" using assms(8) by auto
  then show ?thesis
    using d assms by (simp add: merton_step_def py_div_np)
qed


lemma spec_d1_num_fin:
  "F \<noteq> 0 \<Longrightarrow> s \<noteq> 0 \<Longrightarrow> 0 < v / F \<Longrightarrow>
   spec_d1_num (Fin F) (Fin v) (Fin s) = Fin (spec_d1 F v s)"
  by (simp add: spec_d1_num_def spec_d1_def power2_eq_square)

lemma merton_d1_refines:
  assumes "val tlb = Fin F" "F \<noteq> 0"
  shows "\<exists>d. merton_d1 V tlb S = Inr d \<and> val d = spec_d1_num (Fin F) (val V) (val S)"
  using assms by (simp add: merton_d1_def py_div_fin py_div_np spec_d1_num_def)

lemma merton_step_refines:
  assumes "val mc = E" "val tlb = Fin F" "val ev = sg" "F \<noteq> 0"
  shows "\<exists>Vn Sn. merton_step Phi mc tlb ev V S = Inr (Vn, Sn) \<and>
           val Vn = num_div E (num_cdf Phi (spec_d1_num (Fin F) (val V) (val S))) \<and>
           val Sn = num_div (num_mul sg E)
                      (num_mul (val V) (num_cdf Phi (spec_d1_num (Fin F) (val V) (val S))))"
proof -
  from merton_d1_refines [OF assms(2,4)] obtain d where
    d: "merton_d1 V tlb S = Inr d" "val d = spec_d1_num (Fin F) (val V) (val S)" by blast
  then show ?thesis
    using assms by (simp add: merton_step_def py_div_np)
qed

lemma merton_loop_refines:
  assumes c: "val mc = E" "val tlb = Fin F" "val ev = sg" and nz: "F \<noteq> 0"
  shows "\<exists>V' S'. merton_loop Phi mc tlb ev n i V S =
                   (V', S', snd (snd (spec_iterate Phi E (Fin F) sg n (val V) (val S))), []) \<and>
                 val V' = fst (spec_iterate Phi E (Fin F) sg n (val V) (val S)) \<and>
                 val S' = fst (snd (spec_iterate Phi E (Fin F) sg n (val V) (val S)))"
proof (induction n arbitrary: i V S)
  case 0
  then show ?case by simp
next
  case (Suc n)
  let ?p = "num_cdf Phi (spec_d1_num (Fin F) (val V) (val S))"
  from merton_step_refines [OF c nz, of Phi V S]
  obtain Vn Sn where
    st: "merton_step Phi mc tlb ev V S = Inr (Vn, Sn)"
        "val Vn = num_div E ?p" "val Sn = num_div (num_mul sg E) (num_mul (val V) ?p)"
    by blast
  show ?case
  proof (cases "num_lt (num_abs (num_sub (val Vn) (val V))) (Fin (1 / 10000)) \<and>
                num_lt (num_abs (num_sub (val Sn) (val S))) (Fin (1 / 10000))")
    case True
    then show ?thesis
      using st by (simp add: py_lt_def Let_def)
  next
    case False
    have n1: "val (py_mul (Py (Fin (1 / 2))) (py_add V Vn)) =
                num_mul (Fin (1 / 2)) (num_add (val V) (num_div E ?p))"
      using st by simp
    have n2: "val (py_mul (Py (Fin (1 / 2))) (py_add S Sn)) =
                num_mul (Fin (1 / 2))
                  (num_add (val S) (num_div (num_mul sg E) (num_mul (val V) ?p)))"
      using st by simp
    from Suc.IH [of "Suc i" "py_mul (Py (Fin (1 / 2))) (py_add V Vn)"
                    "py_mul (Py (Fin (1 / 2))) (py_add S Sn)"]
    obtain V' S' where
      ih: "merton_loop Phi mc tlb ev n (Suc i) (py_mul (Py (Fin (1 / 2))) (py_add V Vn))
             (py_mul (Py (Fin (1 / 2))) (py_add S Sn)) =
           (V', S',
            snd (snd (spec_iterate Phi E (Fin F) sg n
                        (val (py_mul (Py (Fin (1 / 2))) (py_add V Vn)))
                        (val (py_mul (Py (Fin (1 / 2))) (py_add S Sn))))), [])"
          "val V' = fst (spec_iterate Phi E (Fin F) sg n
                        (val (py_mul (Py (Fin (1 / 2))) (py_add V Vn)))
                        (val (py_mul (Py (Fin (1 / 2))) (py_add S Sn))))"
          "val S' = fst (snd (spec_iterate Phi E (Fin F) sg n
                        (val (py_mul (Py (Fin (1 / 2))) (py_add V Vn)))
                        (val (py_mul (Py (Fin (1 / 2))) (py_add S Sn)))))"
      by blast
    have lp: "merton_loop Phi mc tlb ev (Suc n) i V S =
                merton_loop Phi mc tlb ev n (Suc i) (py_mul (Py (Fin (1 / 2))) (py_add V Vn))
                  (py_mul (Py (Fin (1 / 2))) (py_add S Sn))"
      using False st(1) by (auto simp: py_lt_def)
    have sp: "spec_iterate Phi E (Fin F) sg (Suc n) (val V) (val S) =
                spec_iterate Phi E (Fin F) sg n
                  (val (py_mul (Py (Fin (1 / 2))) (py_add V Vn)))
                  (val (py_mul (Py (Fin (1 / 2))) (py_add S Sn)))"
      using False st(2,3) by (auto simp: Let_def)
    show ?thesis
      unfolding lp sp using ih by blast
  qed
qed

text \<open>
  C1. For positive equity value \<open>E\<close>, face value of debt \<open>F\<close> and equity volatility
  \<open>sigma_E\<close>, and for every function in the place of \<^verbatim>\<open>norm.cdf\<close>, the code runs the
  iteration of the specification: from \<open>V_A = E + F\<close> and
  \<open>sigma_A = sigma_E * E / V_A\<close> it iterates at most 100 times with
  \<open>d1 = (ln(V_A/F) + (0.05 + 0.5*sigma_A^2)*1.0) / (sigma_A*sqrt(1.0))\<close>,
  \<open>V_A_new = E / Phi(d1)\<close> and \<open>sigma_A_new = sigma_E * E / (V_A * Phi(d1))\<close>, stops exactly
  when both differences are below \<open>1e-4\<close> in absolute value, and otherwise goes on
  from the two midpoints. No operation of the loop raises, so no entry is appended to
  the problematic values; the values are those of the formulas also where these are an
  infinity or NaN.
\<close>

theorem merton_iteration_as_specified:
  assumes "0 < E" and "0 < F" and "0 < sigma_E"
    and "val market_cap = Fin E" and "val total_liabilities = Fin F"
    and "val equity_vol = Fin sigma_E"
  shows "\<exists>V_A sigma_A converged.
           merton_implied Phi market_cap total_liabilities equity_vol =
             Inr (V_A, sigma_A, converged, []) \<and>
           (val V_A, val sigma_A, converged) =
             spec_merton_iteration Phi (Fin E) (Fin F) (Fin sigma_E)"
proof -
  have nz: "F \<noteq> 0" "E + F \<noteq> 0" using assms(1,2) by simp_all
  have v0: "val (py_add market_cap total_liabilities) = Fin (E + F)"
    using assms(4,5) by simp
  obtain S0 where s0: "py_div (py_mul equity_vol market_cap)
                         (py_add market_cap total_liabilities) = Inr S0"
      "val S0 = num_div (num_mul (Fin sigma_E) (Fin E)) (num_add (Fin E) (Fin F))"
    using py_div_fin [OF v0 nz(2)] v0 assms(4,6) by simp
  have v1: "val (py_add market_cap total_liabilities) = num_add (Fin E) (Fin F)"
    using v0 by simp
  from merton_loop_refines [OF assms(4,5,6) nz(1), of Phi 100 0
      "py_add market_cap total_liabilities" S0]
  obtain V' S' where
    l: "merton_loop Phi market_cap total_liabilities equity_vol 100 0
          (py_add market_cap total_liabilities) S0 =
        (V', S', snd (snd (spec_merton_iteration Phi (Fin E) (Fin F) (Fin sigma_E))), [])"
       "val V' = fst (spec_merton_iteration Phi (Fin E) (Fin F) (Fin sigma_E))"
       "val S' = fst (snd (spec_merton_iteration Phi (Fin E) (Fin F) (Fin sigma_E)))"
    unfolding spec_merton_iteration_def s0(2) v1 by blast
  have "merton_implied Phi market_cap total_liabilities equity_vol =
          Inr (V', S', snd (snd (spec_merton_iteration Phi (Fin E) (Fin F) (Fin sigma_E))), [])"
    using s0(1) l(1) by (simp add: merton_implied_def max_iterations_def)
  moreover have "(val V', val S',
                  snd (snd (spec_merton_iteration Phi (Fin E) (Fin F) (Fin sigma_E)))) =
                 spec_merton_iteration Phi (Fin E) (Fin F) (Fin sigma_E)"
    using l(2,3) by simp
  ultimately show ?thesis by blast
qed

theorem merton_iteration_as_specified_witness:
  "(0::real) < 1000000 \<and> (0::real) < 2000000 \<and> (0::real) < 3 / 10 \<and>
   (\<exists>V_A sigma_A converged.
      merton_implied Phi_sample (Py (Fin 1000000)) (Np (Fin 2000000)) (Np (Fin (3 / 10))) =
        Inr (V_A, sigma_A, converged, []) \<and>
      (val V_A, val sigma_A, converged) =
        spec_merton_iteration Phi_sample (Fin 1000000) (Fin 2000000) (Fin (3 / 10)))"
proof -
  have "(0::real) < 1000000" "(0::real) < 2000000" "(0::real) < 3 / 10" by simp_all
  from merton_iteration_as_specified [OF this, of "Py (Fin 1000000)" "Np (Fin 2000000)"
      "Np (Fin (3 / 10))" Phi_sample]
  show ?thesis by simp
qed

lemma num_nan [simp]:
  "num_add NaN b = NaN" "num_add a NaN = NaN"
  "num_mul NaN b = NaN" "num_mul a NaN = NaN"
  "num_div NaN b = NaN" "num_div a NaN = NaN"
  "num_sub NaN b = NaN" "num_sub a NaN = NaN"
  "num_lt NaN b = False" "num_lt a NaN = False"
  by (cases a; cases b; simp add: num_sub_def)+

lemma py_div_np_left: "is_np a \<Longrightarrow> py_div a b = Inr (lift2 num_div a b)"
  by (simp add: py_div_def)

lemma merton_step_nan:
  "merton_step Phi mc tlb ev (Np NaN) (Np NaN) = Inr (Np NaN, Np NaN)"
  by (simp add: merton_step_def merton_d1_def py_div_np py_div_np_left lift2_def
      py_add_def lift2i_def py_mul_def np_log_def norm_cdf_def np_sqrt_def)

lemma merton_loop_nan:
  "merton_loop Phi mc tlb ev n i (Np NaN) (Np NaN) = (Np NaN, Np NaN, False, [])"
  by (induction n arbitrary: i)
     (simp_all add: merton_step_nan py_lt_def py_sub_def lift2i_def py_add_def py_mul_def lift2_def)

lemma merton_final_nan:
  "merton_final Phi tlb (Np NaN) (Np NaN) pv sv = (Some (Np NaN), Some (Np NaN), pv, sv)"
  by (simp add: merton_final_def merton_dd_def py_div_np py_div_np_left lift2_def
      py_add_def lift2i_def py_mul_def py_sub_def np_log_def norm_cdf_def np_sqrt_def py_gt_def py_lt_def
      Let_def)

text \<open>
  C2 (the code does otherwise). With a market value of equity of \<open>-110\<close> (a book value
  of \<open>-100\<close> with the premium of line 945), liabilities of 50 and a volatility of 0.3,
  the first iteration takes the logarithm of \<open>-60/50\<close>. \<^verbatim>\<open>np.log\<close> returns NaN and
  raises nothing, so the handler of line 1010 is not entered: the loop is not left, no
  entry is appended to the problematic values, NaN replaces the pair \<open>(-60, 0.55)\<close>, all
  100 iterations run, and the distance to default and the probability returned are NaN.
\<close>

theorem merton_log_failure_not_caught:
  "merton_implied Phi (Np (Fin (- 110))) (Np (Fin 50)) (Py (Fin (3 / 10))) =
     Inr (Np NaN, Np NaN, False, []) \<and>
   merton_solver Phi (Np (Fin (- 110))) (Np (Fin 50)) (Py (Fin (3 / 10))) [] [] =
     Inr (Some (Np NaN), Some (Np NaN), [],
          [Note ''Using last iteration values (no convergence)''])"
proof -
  have s1: "merton_step Phi (Np (Fin (- 110))) (Np (Fin 50)) (Py (Fin (3 / 10)))
              (Np (Fin (- 60))) (Np (Fin (11 / 20))) = Inr (Np NaN, Np NaN)"
    by (simp add: merton_step_def merton_d1_def py_div_np lift2_def
        py_add_def lift2i_def py_mul_def np_log_def norm_cdf_def np_sqrt_def)
  have "merton_loop Phi (Np (Fin (- 110))) (Np (Fin 50)) (Py (Fin (3 / 10))) (Suc 99) 0
          (Np (Fin (- 60))) (Np (Fin (11 / 20))) = (Np NaN, Np NaN, False, [])"
    by (simp only: merton_loop.simps s1 sum.case prod.case)
       (simp add: py_lt_def py_sub_def lift2i_def py_add_def py_mul_def lift2_def merton_loop_nan)
  then have l: "merton_loop Phi (Np (Fin (- 110))) (Np (Fin 50)) (Py (Fin (3 / 10))) 100 0
          (Np (Fin (- 60))) (Np (Fin (11 / 20))) = (Np NaN, Np NaN, False, [])"
    by simp
  have i: "merton_implied Phi (Np (Fin (- 110))) (Np (Fin 50)) (Py (Fin (3 / 10))) =
     Inr (Np NaN, Np NaN, False, [])"
    by (simp add: merton_implied_def max_iterations_def py_div_np lift2_def py_add_def lift2i_def
        py_mul_def l)
  show ?thesis
    using i by (simp add: merton_solver_def attempt_def merton_final_nan)
qed

theorem merton_log_failure_not_caught_witness:
  "merton_implied Phi_sample (Np (Fin (- 110))) (Np (Fin 50)) (Py (Fin (3 / 10))) =
     Inr (Np NaN, Np NaN, False, []) \<and>
   merton_solver Phi_sample (Np (Fin (- 110))) (Np (Fin 50)) (Py (Fin (3 / 10))) [] [] =
     Inr (Some (Np NaN), Some (Np NaN), [],
          [Note ''Using last iteration values (no convergence)''])"
  by (rule merton_log_failure_not_caught)


lemma merton_d1_np:
  assumes "F \<noteq> 0" "s \<noteq> 0" "0 < v / F"
  shows "merton_d1 (Np (Fin v)) (Np (Fin F)) (Np (Fin s)) = Inr (Np (Fin (spec_d1 F v s)))"
  using assms
  by (simp add: merton_d1_def py_div_np lift2_def py_add_def lift2i_def py_mul_def np_log_def
      np_sqrt_def rf_rate_def T_horizon_def spec_d1_def power2_eq_square)

lemma merton_step_np:
  assumes "F \<noteq> 0" "s \<noteq> 0" "0 < v / F"
  shows "merton_step Phi (Py (Fin E)) (Np (Fin F)) (Np (Fin sg)) (Np (Fin v)) (Np (Fin s)) =
           Inr (Np (num_div (Fin E) (Fin (Phi (spec_d1 F v s)))),
                Np (num_div (Fin (sg * E)) (Fin (v * Phi (spec_d1 F v s)))))"
  using merton_d1_np [OF assms]
  by (simp add: merton_step_def py_div_np lift2_def py_mul_def lift2i_def norm_cdf_def)

lemma merton_step_inf:
  assumes "0 < F"
  shows "merton_step Phi (Py (Fin E)) (Np (Fin F)) (Np (Fin sg)) (Np PInf) (Np PInf) =
           Inr (Np NaN, Np NaN)"
  using assms
  by (simp add: merton_step_def merton_d1_def py_div_np lift2_def py_add_def lift2i_def py_mul_def
      np_log_def np_sqrt_def norm_cdf_def rf_rate_def T_horizon_def)

lemma underflow_d1_first: "9 \<le> spec_d1 10000000000 10100000000 (3 / 1010)"
proof -
  define L :: real where "L = ln (10100000000 / 10000000000)"
  have "0 \<le> L" unfolding L_def by simp
  then have "9 * (3 / 1010) \<le> L + (5 / 100 + 1 / 2 * (3 / 1010)\<^sup>2) * 1"
    by (simp add: power2_eq_square)
  then have "9 \<le> (L + (5 / 100 + 1 / 2 * (3 / 1010)\<^sup>2) * 1) / (3 / 1010 * sqrt 1)"
    by (simp add: pos_le_divide_eq)
  then show ?thesis
    unfolding spec_d1_def L_def .
qed

lemma underflow_d1_second: "spec_d1 10000000000 5100000000 (3 / 1010) \<le> - 39"
proof -
  have "ln (5100000000 / 10000000000 :: real) \<le> 5100000000 / 10000000000 - 1"
    by (rule ln_le_minus_one) simp
  then have "ln (5100000000 / 10000000000 :: real) + (5 / 100 + 1 / 2 * (3 / 1010)\<^sup>2) * 1
      \<le> - 39 * (3 / 1010)"
    by (simp add: power2_eq_square)
  then show ?thesis
    unfolding spec_d1_def by (simp add: pos_divide_le_eq)
qed


lemma merton_loop_continue:
  assumes "merton_step Phi mc tlb ev V S = Inr (Vn, Sn)"
    and "\<not> (py_lt (py_abs (py_sub Vn V)) convergence_threshold \<and>
            py_lt (py_abs (py_sub Sn S)) convergence_threshold)"
  shows "merton_loop Phi mc tlb ev (Suc k) i V S =
           merton_loop Phi mc tlb ev k (Suc i)
             (py_mul (Py (Fin (1 / 2))) (py_add V Vn))
             (py_mul (Py (Fin (1 / 2))) (py_add S Sn))"
  using assms by auto

text \<open>
  C3 (the code does otherwise). \<open>E = 1e8\<close>, \<open>F = 1e10\<close> and \<open>sigma_E = 0.3\<close> are
  valid inputs. In the second iteration \<open>d1\<close> is below \<open>-39\<close>, where \<^verbatim>\<open>norm.cdf\<close>
  is exactly 0 in double precision (as it is exactly 1 from 9 on); the two divisions by
  zero give infinity without raising, the third iteration gives NaN, and NaN passes both
  sanity checks of lines 1026 and 1029: the probability and the distance to default
  returned are NaN, and the problematic values are empty.
\<close>

theorem merton_underflow_nan:
  assumes one: "\<forall>x. 9 \<le> x \<longrightarrow> Phi x = 1" and zero: "\<forall>x. x \<le> - 39 \<longrightarrow> Phi x = 0"
  shows "merton_solver Phi (Py (Fin 100000000)) (Np (Fin 10000000000)) (Np (Fin (3 / 10)))
           [] [] =
         Inr (Some (Np NaN), Some (Np NaN), [],
              [Note ''Using last iteration values (no convergence)''])"
proof -
  let ?loop = "merton_loop Phi (Py (Fin 100000000)) (Np (Fin 10000000000)) (Np (Fin (3 / 10)))"
  have p1: "Phi (spec_d1 10000000000 10100000000 (3 / 1010)) = 1"
    using one underflow_d1_first by blast
  have p2: "Phi (spec_d1 10000000000 5100000000 (3 / 1010)) = 0"
    using zero underflow_d1_second by blast
  have s1: "merton_step Phi (Py (Fin 100000000)) (Np (Fin 10000000000)) (Np (Fin (3 / 10)))
              (Np (Fin 10100000000)) (Np (Fin (3 / 1010))) =
            Inr (Np (Fin 100000000), Np (Fin (3 / 1010)))"
    by (subst merton_step_np) (simp_all add: p1)
  have s2: "merton_step Phi (Py (Fin 100000000)) (Np (Fin 10000000000)) (Np (Fin (3 / 10)))
              (Np (Fin 5100000000)) (Np (Fin (3 / 1010))) =
            Inr (Np PInf, Np PInf)"
    by (subst merton_step_np) (simp_all add: p2)
  have s3: "merton_step Phi (Py (Fin 100000000)) (Np (Fin 10000000000)) (Np (Fin (3 / 10)))
              (Np PInf) (Np PInf) = Inr (Np NaN, Np NaN)"
    by (rule merton_step_inf) simp
  have "?loop (Suc 99) 0 (Np (Fin 10100000000)) (Np (Fin (3 / 1010))) =
        ?loop 99 (Suc 0) (Np (Fin 5100000000)) (Np (Fin (3 / 1010)))"
    by (subst merton_loop_continue [OF s1])
       (simp_all add: py_lt_def py_sub_def lift2i_def py_add_def py_mul_def lift2_def num_sub_def)
  also have "\<dots> = ?loop (Suc 98) (Suc 0) (Np (Fin 5100000000)) (Np (Fin (3 / 1010)))"
    by simp
  also have "\<dots> = ?loop 98 (Suc (Suc 0)) (Np PInf) (Np PInf)"
    by (subst merton_loop_continue [OF s2])
       (simp_all add: py_lt_def py_sub_def lift2i_def py_add_def py_mul_def lift2_def num_sub_def)
  also have "\<dots> = ?loop (Suc 97) (Suc (Suc 0)) (Np PInf) (Np PInf)"
    by simp
  also have "\<dots> = ?loop 97 (Suc (Suc (Suc 0))) (Np NaN) (Np NaN)"
    by (subst merton_loop_continue [OF s3])
       (simp_all add: py_lt_def py_sub_def lift2i_def py_add_def py_mul_def lift2_def num_sub_def)
  also have "\<dots> = (Np NaN, Np NaN, False, [])"
    by (rule merton_loop_nan)
  finally have l: "?loop 100 0 (Np (Fin 10100000000)) (Np (Fin (3 / 1010))) =
              (Np NaN, Np NaN, False, [])"
    by simp
  have i: "merton_implied Phi (Py (Fin 100000000)) (Np (Fin 10000000000)) (Np (Fin (3 / 10))) =
             Inr (Np NaN, Np NaN, False, [])"
    by (simp add: merton_implied_def max_iterations_def py_div_np lift2_def py_add_def lift2i_def
        py_mul_def l)
  show ?thesis
    using i by (simp add: merton_solver_def attempt_def merton_final_nan)
qed

theorem merton_underflow_nan_witness:
  "Phi_clipped 9 = 1 \<and> Phi_clipped (- 39) = 0 \<and>
   merton_solver Phi_clipped (Py (Fin 100000000)) (Np (Fin 10000000000)) (Np (Fin (3 / 10)))
     [] [] =
   Inr (Some (Np NaN), Some (Np NaN), [],
        [Note ''Using last iteration values (no convergence)''])"
proof -
  have "\<forall>x. 9 \<le> x \<longrightarrow> Phi_clipped x = 1" "\<forall>x. x \<le> - 39 \<longrightarrow> Phi_clipped x = 0"
    by (simp_all add: Phi_clipped_def)
  with merton_underflow_nan [of Phi_clipped] show ?thesis
    by (simp add: Phi_clipped_def)
qed



section \<open>The probability of default and the equity value\<close>

lemma spec_d1_nonneg:
  assumes "0 < F" "F \<le> v" "0 < s"
  shows "0 \<le> spec_d1 F v s"
proof -
  have "1 \<le> v / F" using assms by simp
  then have "0 \<le> ln (v / F)" by simp
  moreover have "0 \<le> (5 / 100 + 1 / 2 * s ^ 2) * 1" by simp
  ultimately show ?thesis
    using assms(3) unfolding spec_d1_def by simp
qed

lemma merton_loop_floor_inv:
  assumes c: "val mc = Fin E" "val tlb = Fin F" "val ev = Fin sg"
    and pos: "0 < F" "F \<le> E" "0 < sg"
    and phi: "\<forall>x. 0 \<le> x \<longrightarrow> 1 / 2 \<le> Phi x \<and> Phi x \<le> 1"
  shows "val V = Fin v \<Longrightarrow> val S = Fin s \<Longrightarrow> E \<le> v \<Longrightarrow> 0 < s \<Longrightarrow> s \<le> 2 * sg \<Longrightarrow>
         \<exists>V' S' v' s' cv. merton_loop Phi mc tlb ev n i V S = (V', S', cv, []) \<and>
            val V' = Fin v' \<and> val S' = Fin s' \<and> E \<le> v' \<and> 0 < s' \<and> s' \<le> 2 * sg"
proof (induction n arbitrary: i V S v s)
  case 0
  then show ?case by auto
next
  case (Suc n)
  let ?p = "Phi (spec_d1 F v s)"
  have Epos: "0 < E" using pos by simp
  have vpos: "0 < v" using Epos Suc.prems(3) by simp
  have d: "0 \<le> spec_d1 F v s"
    using spec_d1_nonneg [of F v s] pos Suc.prems by simp
  then have p: "1 / 2 \<le> ?p" "?p \<le> 1" using phi by blast+
  have q: "0 < v / F" using vpos pos(1) by simp
  from merton_step_fin [OF c Suc.prems(1,2), of Phi] pos(1) Suc.prems(4) q p
  obtain Vn Sn where
    st: "merton_step Phi mc tlb ev V S = Inr (Vn, Sn)"
        "val Vn = Fin (E / ?p)" "val Sn = Fin (sg * E / (v * ?p))"
    by auto
  have vn: "E \<le> E / ?p"
    using Epos p by (simp add: pos_le_divide_eq mult_left_le)
  have sn0: "0 < sg * E / (v * ?p)" using pos(3) Epos vpos p by simp
  have "E \<le> 2 * (v * ?p)"
  proof -
    have "E * (1 / 2) \<le> v * ?p"
      using p(1) Suc.prems(3) Epos by (intro mult_mono) simp_all
    then show ?thesis by simp
  qed
  then have "sg * E \<le> sg * (2 * (v * ?p))"
    using pos(3) by simp
  then have sn1: "sg * E / (v * ?p) \<le> 2 * sg"
    using vpos p by (simp add: pos_divide_le_eq mult.assoc mult.left_commute)
  show ?case
  proof (cases "py_lt (py_abs (py_sub Vn V)) convergence_threshold \<and>
                py_lt (py_abs (py_sub Sn S)) convergence_threshold")
    case True
    then show ?thesis
      using st Suc.prems by auto
  next
    case False
    have n1: "val (py_mul (Py (Fin (1 / 2))) (py_add V Vn)) = Fin (1 / 2 * (v + E / ?p))"
      using st Suc.prems(1) by simp
    have n2: "val (py_mul (Py (Fin (1 / 2))) (py_add S Sn)) =
                Fin (1 / 2 * (s + sg * E / (v * ?p)))"
      using st Suc.prems(2) by simp
    have i1: "E \<le> 1 / 2 * (v + E / ?p)" using vn Suc.prems(3) by simp
    have i2: "0 < 1 / 2 * (s + sg * E / (v * ?p))" using sn0 Suc.prems(4) by simp
    have i3: "1 / 2 * (s + sg * E / (v * ?p)) \<le> 2 * sg" using sn1 Suc.prems(5) by simp
    from Suc.IH [OF n1 n2 i1 i2 i3, of "Suc i"] False st
    show ?thesis by auto
  qed
qed


lemma merton_dd_fin:
  assumes "val tlb = Fin F" "val V = Fin v" "val S = Fin s" "F \<noteq> 0" "s \<noteq> 0" "0 < v / F"
  shows "\<exists>d. merton_dd V tlb S = Inr d \<and>
           val d = Fin ((ln (v / F) + (5 / 100 - 1 / 2 * s ^ 2) * 1) / (s * sqrt 1))"
  using assms
  by (simp add: merton_dd_def py_div_fin py_div_np power2_eq_square num_sub_def)

lemma distance_at_least_3:
  fixes E F v s sg :: real
  assumes "0 < F" "F \<le> E" "E \<le> v" "0 < s" "s \<le> 2 * sg"
    and "6 * sg + 2 * sg ^ 2 - 5 / 100 \<le> ln (E / F)"
  shows "3 \<le> (ln (v / F) + (5 / 100 - 1 / 2 * s ^ 2) * 1) / (s * sqrt 1)"
proof -
  have "E / F \<le> v / F" using assms(1,3) by (simp add: divide_right_mono)
  moreover have "0 < E / F" using assms(1,2) by simp
  ultimately have l: "ln (E / F) \<le> ln (v / F)" by simp
  have "s * s \<le> (2 * sg) * (2 * sg)"
    using assms(4,5) by (intro mult_mono) simp_all
  then have q: "s ^ 2 \<le> 4 * sg ^ 2" by (simp add: power2_eq_square)
  have "3 * s \<le> 6 * sg" using assms(5) by simp
  also have "\<dots> \<le> ln (v / F) + (5 / 100 - 1 / 2 * s ^ 2) * 1"
    using l q assms(6) by simp
  finally show ?thesis
    using assms(4) by (simp add: pos_le_divide_eq)
qed

lemma merton_floor:
  assumes phi1: "\<forall>x. 0 \<le> x \<longrightarrow> 1 / 2 \<le> Phi x \<and> Phi x \<le> 1"
    and phi2: "\<forall>x. x \<le> - 3 \<longrightarrow> Phi x < 1 / 100"
    and pos: "0 < F" "F \<le> E" "0 < sg"
    and big: "6 * sg + 2 * sg ^ 2 - 5 / 100 \<le> ln (E / F)"
  shows "merton_probability Phi E F sg = Some (Py (Fin (1 / 100)))"
proof -
  let ?mc = "Py (Fin E)" and ?tl = "Np (Fin F)" and ?ev = "Np (Fin sg)"
  have Epos: "0 < E" using pos by simp
  have nz: "E + F \<noteq> 0" using Epos pos(1) by simp
  have s0: "py_div (py_mul ?ev ?mc) (py_add ?mc ?tl) = Inr (Np (Fin (sg * E / (E + F))))"
    using nz by (simp add: py_div_np lift2_def py_add_def lift2i_def py_mul_def)
  have v0: "val (py_add ?mc ?tl) = Fin (E + F)" by simp
  have i1: "E \<le> E + F" using pos(1) by simp
  have i2: "0 < sg * E / (E + F)" using Epos pos by simp
  have "sg * E \<le> sg * (E + F)" using pos by simp
  also have "\<dots> \<le> 2 * sg * (E + F)" using pos Epos by simp
  finally have i3: "sg * E / (E + F) \<le> 2 * sg"
    using Epos pos(1) by (simp add: pos_divide_le_eq)
  from merton_loop_floor_inv [where mc = ?mc and tlb = ?tl and ev = ?ev and Phi = Phi
      and V = "py_add ?mc ?tl" and S = "Np (Fin (sg * E / (E + F)))" and n = 100 and i = 0,
      OF _ _ _ pos phi1 v0 _ i1 i2 i3]
  obtain V' S' v' s' cv where
    l: "merton_loop Phi ?mc ?tl ?ev 100 0 (py_add ?mc ?tl) (Np (Fin (sg * E / (E + F)))) =
          (V', S', cv, [])"
       "val V' = Fin v'" "val S' = Fin s'" "E \<le> v'" "0 < s'" "s' \<le> 2 * sg"
    by auto
  have q: "0 < v' / F" using l(4) Epos pos(1) by simp
  from merton_dd_fin [of ?tl F V' v' S' s'] l pos(1) q
  obtain d where d: "merton_dd V' ?tl S' = Inr d"
      "val d = Fin ((ln (v' / F) + (5 / 100 - 1 / 2 * s' ^ 2) * 1) / (s' * sqrt 1))"
    by auto
  have "3 \<le> (ln (v' / F) + (5 / 100 - 1 / 2 * s' ^ 2) * 1) / (s' * sqrt 1)"
    using distance_at_least_3 [OF pos(1,2) l(4,5,6) big] .
  then have "Phi (- ((ln (v' / F) + (5 / 100 - 1 / 2 * s' ^ 2) * 1) / (s' * sqrt 1))) < 1 / 100"
    using phi2 by simp
  then have f: "fst (merton_final Phi ?tl V' S' pv sv) = Some (Py (Fin (1 / 100)))" for pv sv
    using d by (simp add: merton_final_def Let_def py_gt_def py_lt_def)
  show ?thesis
    using s0 l(1) f
    by (simp add: merton_probability_def merton_solver_def merton_implied_def attempt_def
        max_iterations_def Let_def case_prod_beta)
qed


lemma Phi_sample_upper_half:
  assumes "0 \<le> x"
  shows "1 / 2 \<le> Phi_sample x \<and> Phi_sample x \<le> 1"
proof -
  have d: "0 < 1 / 20 + x" using assms by simp
  have a: "0 \<le> x / (1 / 20 + x)" using assms d by simp
  have "x \<le> 1 / 20 + x" by simp
  then have b: "x / (1 / 20 + x) \<le> 1" using d by (simp add: pos_divide_le_eq)
  show ?thesis using a b assms by (simp add: Phi_sample_def)
qed

lemma Phi_sample_tail:
  assumes "x \<le> - 3"
  shows "Phi_sample x < 1 / 100"
proof -
  define q where "q = x / (1 / 20 - x)"
  have d: "0 < 1 / 20 - x" using assms by simp
  have "x < (- 49 / 50) * (1 / 20 - x)" using assms by (simp add: field_simps)
  then have "q < - 49 / 50"
    unfolding q_def using d by (simp add: pos_divide_less_eq)
  moreover have "\<bar>x\<bar> = - x" using assms by simp
  then have "Phi_sample x = (1 + q) / 2" by (simp add: Phi_sample_def q_def)
  ultimately show ?thesis by simp
qed

lemma ln_ge_2:
  assumes "100 \<le> (x :: real)"
  shows "2 \<le> ln x"
proof -
  have "exp (2 :: real) = exp 1 * exp 1" by (simp add: exp_add [symmetric])
  also have "\<dots> \<le> 3 * 3" by (intro mult_mono exp_le) simp_all
  finally have "exp (2 :: real) \<le> x" using assms by simp
  then show ?thesis using assms by (simp add: ln_ge_iff)
qed

lemma ln_100_bound: "6 * (3 / 10) + 2 * (3 / 10)\<^sup>2 - 5 / 100 \<le> ln (100 / 1 :: real)"
  using ln_ge_2 [of 100] by (simp add: power2_eq_square)

lemma ln_200_bound: "6 * (3 / 10) + 2 * (3 / 10)\<^sup>2 - 5 / 100 \<le> ln (200 / 1 :: real)"
  using ln_ge_2 [of 200] by (simp add: power2_eq_square)

text \<open>
  C4, as amended. The probability returned is clamped to \<open>[0.01, 0.99]\<close> (lines 1026 to
  1031), so it is not strictly decreasing in \<open>E\<close>: with \<open>F\<close> and \<open>sigma_E\<close> fixed, for
  all \<open>E1 < E2\<close> with \<open>E1 \<ge> F\<close> and \<open>ln(E1/F) \<ge> 6*sigma_E + 2*sigma_E^2 - 0.05\<close> the
  probability computed for \<open>E2\<close> equals the one computed for \<open>E1\<close>, both being the
  floor 0.01. \<open>Phi\<close> is any function that lies between one half and one on the
  non-negative reals and below one hundredth from \<open>-3\<close> down, as \<^verbatim>\<open>norm.cdf\<close> does.
\<close>

theorem merton_floor_not_strict:
  assumes "\<forall>x. 0 \<le> x \<longrightarrow> 1 / 2 \<le> Phi x \<and> Phi x \<le> 1"
    and "\<forall>x. x \<le> - 3 \<longrightarrow> Phi x < 1 / 100"
    and "0 < F" and "F \<le> E1" and "E1 < E2" and "0 < sigma_E"
    and "6 * sigma_E + 2 * sigma_E ^ 2 - 5 / 100 \<le> ln (E1 / F)"
  shows "merton_probability Phi E1 F sigma_E = Some (Py (Fin (1 / 100))) \<and>
         merton_probability Phi E2 F sigma_E = Some (Py (Fin (1 / 100))) \<and>
         \<not> prob_less (merton_probability Phi E2 F sigma_E)
                      (merton_probability Phi E1 F sigma_E)"
proof -
  have 1: "merton_probability Phi E1 F sigma_E = Some (Py (Fin (1 / 100)))"
    using assms by (intro merton_floor) simp_all
  have "E1 / F \<le> E2 / F" using assms(3,5) by (simp add: divide_right_mono)
  moreover have "0 < E1 / F" using assms(3,4) by simp
  ultimately have "ln (E1 / F) \<le> ln (E2 / F)" by simp
  then have "6 * sigma_E + 2 * sigma_E ^ 2 - 5 / 100 \<le> ln (E2 / F)"
    using assms(7) by simp
  then have 2: "merton_probability Phi E2 F sigma_E = Some (Py (Fin (1 / 100)))"
    using assms by (intro merton_floor) simp_all
  show ?thesis
    using 1 2 by (simp add: prob_less_def py_lt_def)
qed

theorem merton_floor_not_strict_witness:
  "Phi_sample 0 = 1 / 2 \<and> Phi_sample (- 3) < 1 / 100 \<and>
   (0 :: real) < 1 \<and> (1 :: real) \<le> 100 \<and> (100 :: real) < 200 \<and> (0 :: real) < 3 / 10 \<and>
   6 * (3 / 10) + 2 * (3 / 10)\<^sup>2 - 5 / 100 \<le> ln (100 / 1 :: real) \<and>
   merton_probability Phi_sample 100 1 (3 / 10) = Some (Py (Fin (1 / 100))) \<and>
   merton_probability Phi_sample 200 1 (3 / 10) = Some (Py (Fin (1 / 100)))"
proof -
  have a: "\<forall>x. 0 \<le> x \<longrightarrow> 1 / 2 \<le> Phi_sample x \<and> Phi_sample x \<le> 1"
    using Phi_sample_upper_half by blast
  have b: "\<forall>x. x \<le> - 3 \<longrightarrow> Phi_sample x < 1 / 100"
    using Phi_sample_tail by blast
  have c: "Phi_sample 0 = 1 / 2" by (simp add: Phi_sample_def)
  have d: "Phi_sample (- 3) < 1 / 100" using b by simp
  from merton_floor_not_strict [OF a b _ _ _ _ ln_100_bound, of 200] c d ln_100_bound
  show ?thesis by simp
qed

text \<open>
  C4 as stated fails: for \<open>F = 1\<close> and \<open>sigma_E = 0.3\<close> the equity values 100 and 200
  both give the floor 0.01, so the larger one does not give a strictly smaller
  probability. (The instance is stated for \<open>Phi_sample\<close>; by \<open>merton_floor\<close> the same
  holds for every \<open>Phi\<close> with the two properties above, \<^verbatim>\<open>norm.cdf\<close> included.)
\<close>

theorem merton_not_strictly_decreasing:
  "\<not> (\<forall>E1 E2 F sigma_E. 0 < E1 \<and> E1 < E2 \<and> 0 < F \<and> 0 < sigma_E \<longrightarrow>
        prob_less (merton_probability Phi_sample E2 F sigma_E)
                  (merton_probability Phi_sample E1 F sigma_E))"
proof
  assume h: "\<forall>E1 E2 F sigma_E. 0 < E1 \<and> E1 < E2 \<and> 0 < F \<and> 0 < sigma_E \<longrightarrow>
        prob_less (merton_probability Phi_sample E2 F sigma_E)
                  (merton_probability Phi_sample E1 F sigma_E)"
  have a: "\<forall>x. 0 \<le> x \<longrightarrow> 1 / 2 \<le> Phi_sample x \<and> Phi_sample x \<le> 1"
    using Phi_sample_upper_half by blast
  have b: "\<forall>x. x \<le> - 3 \<longrightarrow> Phi_sample x < 1 / 100"
    using Phi_sample_tail by blast
  have 1: "merton_probability Phi_sample 100 1 (3 / 10) = Some (Py (Fin (1 / 100)))"
    using ln_100_bound by (intro merton_floor a b) simp_all
  have 2: "merton_probability Phi_sample 200 1 (3 / 10) = Some (Py (Fin (1 / 100)))"
    using ln_200_bound by (intro merton_floor a b) simp_all
  from h have "prob_less (merton_probability Phi_sample 200 1 (3 / 10))
                         (merton_probability Phi_sample 100 1 (3 / 10))"
    by simp
  then show False using 1 2 by (simp add: prob_less_def py_lt_def)
qed



section \<open>The equity volatility and its fallbacks\<close>






















end
